theory Spec2Isabelle
  imports Complex_Main "HOL-Library.Char_ord" "HOL-Library.List_Lexorder" "HOL-Library.AList"
    "HOL-Library.Sublist"
begin

section \<open>Python values\<close>

text \<open>
  The pricing pipeline of \<^verbatim>\<open>backend/scripts/Price_Bandit.py\<close> works on values decoded
  from JSON. A Python \<^verbatim>\<open>str\<close> is a \<open>string\<close> whose characters are the code points
  below 256; a Python \<^verbatim>\<open>int\<close> is an \<open>int\<close>; a \<^verbatim>\<open>dict\<close> is an association
  list in insertion order. A \<^verbatim>\<open>float\<close> is carried by the text that \<^verbatim>\<open>repr\<close> gives
  for it (\<^verbatim>\<open>2.005\<close> is \<open>PyFloat ''2.005''\<close>): the code only ever turns a float into
  that text. The interpreter is CPython 3.11 with its defaults: conversions between
  \<^verbatim>\<open>int\<close> and \<^verbatim>\<open>str\<close> raise \<^verbatim>\<open>ValueError\<close> beyond 4300 digits.
\<close>

datatype pyval =
    PyNone
  | PyBool bool
  | PyInt int
  | PyFloat string
  | PyStr string
  | PyList "pyval list"
  | PyDict "(string \<times> pyval) list"

datatype exn =
    KeyError
  | ValueError
  | TypeError
  | AttributeError
  | InvalidOperation
  | HTTPError
  | ConnectionError

type_synonym 'a result = "exn + 'a"

definition bind_result :: "'a result \<Rightarrow> ('a \<Rightarrow> 'b result) \<Rightarrow> 'b result" where
  "bind_result r f = (case r of Inl e \<Rightarrow> Inl e | Inr x \<Rightarrow> f x)"

fun map_result :: "('a \<Rightarrow> 'b result) \<Rightarrow> 'a list \<Rightarrow> 'b list result" where
  "map_result f [] = Inr []"
| "map_result f (x # xs) =
     bind_result (f x) (\<lambda>y. bind_result (map_result f xs) (\<lambda>ys. Inr (y # ys)))"

subsection \<open>Characters and digits\<close>

definition is_digit :: "char \<Rightarrow> bool" where
  "is_digit c = (c \<in> set ''0123456789'')"

definition digit_val :: "char \<Rightarrow> nat" where
  "digit_val c = of_char c - 48"

definition digit_char :: "nat \<Rightarrow> char" where
  "digit_char d = char_of (48 + d)"

definition nat_of_digits :: "string \<Rightarrow> nat" where
  "nat_of_digits ds = foldl (\<lambda>n c. 10 * n + digit_val c) 0 ds"

fun digits_of :: "nat \<Rightarrow> string" where
  "digits_of n = (if n < 10 then [digit_char n] else digits_of (n div 10) @ [digit_char (n mod 10)])"

declare digits_of.simps [simp del]

definition str_of_int :: "int \<Rightarrow> string" where
  "str_of_int i = (if i < 0 then CHR ''-'' # digits_of (nat (- i)) else digits_of (nat i))"

text \<open>The characters that \<^verbatim>\<open>str.strip()\<close> removes, among the code points below 256.\<close>

definition is_space :: "char \<Rightarrow> bool" where
  "is_space c = ((of_char c :: nat) \<in> {9, 10, 11, 12, 13, 28, 29, 30, 31, 32, 133, 160})"

definition py_strip :: "string \<Rightarrow> string" where
  "py_strip s = rev (dropWhile is_space (rev (dropWhile is_space s)))"

definition lower_ascii :: "char \<Rightarrow> char" where
  "lower_ascii c = (if c \<in> set ''ABCDEFGHIJKLMNOPQRSTUVWXYZ'' then char_of (of_char c + (32::nat)) else c)"

fun split_sign :: "string \<Rightarrow> bool \<times> string" where
  "split_sign [] = (False, [])"
| "split_sign (c # cs) =
     (if c = CHR ''-'' then (True, cs) else if c = CHR ''+'' then (False, cs) else (False, c # cs))"

subsection \<open>\<^verbatim>\<open>str()\<close> and \<^verbatim>\<open>repr()\<close>\<close>

definition hex_char :: "nat \<Rightarrow> char" where
  "hex_char d = (if d < 10 then char_of (48 + d) else char_of (87 + d))"

definition is_printable :: "char \<Rightarrow> bool" where
  "is_printable c = (let n = (of_char c :: nat) in (32 \<le> n \<and> n < 127) \<or> (161 \<le> n \<and> n \<noteq> 173))"

definition repr_char :: "char \<Rightarrow> char \<Rightarrow> string" where
  "repr_char q c =
     (if c = q \<or> c = CHR 0x5C then [CHR 0x5C, c]
      else if c = CHR 0x09 then [CHR 0x5C, CHR ''t'']
      else if c = CHR 0x0A then [CHR 0x5C, CHR ''n'']
      else if c = CHR 0x0D then [CHR 0x5C, CHR ''r'']
      else if is_printable c then [c]
      else [CHR 0x5C, CHR ''x'', hex_char (of_char c div 16), hex_char (of_char c mod 16)])"

definition repr_str :: "string \<Rightarrow> string" where
  "repr_str s =
     (let q = (if CHR 0x27 \<in> set s \<and> CHR 0x22 \<notin> set s then CHR 0x22 else CHR 0x27)
      in q # concat (map (repr_char q) s) @ [q])"

fun join_comma :: "string list \<Rightarrow> string" where
  "join_comma [] = []"
| "join_comma [x] = x"
| "join_comma (x # y # ys) = x @ '', '' @ join_comma (y # ys)"

fun py_repr :: "pyval \<Rightarrow> string" where
  "py_repr PyNone = ''None''"
| "py_repr (PyBool b) = (if b then ''True'' else ''False'')"
| "py_repr (PyInt i) = str_of_int i"
| "py_repr (PyFloat r) = r"
| "py_repr (PyStr s) = repr_str s"
| "py_repr (PyList xs) = ''['' @ join_comma (map py_repr xs) @ '']''"
| "py_repr (PyDict kvs) =
     ''{'' @ join_comma (map (\<lambda>kv. repr_str (fst kv) @ '': '' @ py_repr (snd kv)) kvs) @ ''}''"

definition py_str :: "pyval \<Rightarrow> string" where
  "py_str v = (case v of PyStr s \<Rightarrow> s | _ \<Rightarrow> py_repr v)"

text \<open>
  \<^verbatim>\<open>str(v)\<close> raises \<^verbatim>\<open>ValueError\<close> when it has to write an int of more than 4300
  digits, also inside a list or a dict; otherwise it returns \<open>py_str v\<close>.
\<close>

fun int_too_long :: "pyval \<Rightarrow> bool" where
  "int_too_long (PyInt i) = (4300 < length (digits_of (nat \<bar>i\<bar>)))"
| "int_too_long (PyList xs) = list_ex int_too_long xs"
| "int_too_long (PyDict kvs) = list_ex (\<lambda>kv. int_too_long (snd kv)) kvs"
| "int_too_long PyNone = False"
| "int_too_long (PyBool b) = False"
| "int_too_long (PyFloat r) = False"
| "int_too_long (PyStr s) = False"

definition py_str_checked :: "pyval \<Rightarrow> string result" where
  "py_str_checked v = (if int_too_long v then Inl ValueError else Inr (py_str v))"

section \<open>Decimal arithmetic used by \<^verbatim>\<open>format_price\<close>\<close>

text \<open>
  \<^verbatim>\<open>decimal.Decimal\<close> values: a finite number is a sign (\<open>True\<close> for minus), a
  coefficient and an exponent; the special values are the infinities and the quiet and
  signalling NaNs with their payload digits. The arithmetic is that of the default
  context: 28 digits of precision, \<^verbatim>\<open>InvalidOperation\<close> trapped. The constructor
  works in the widest context of the C implementation, whose largest adjusted exponent is
  \<open>decimal_emax\<close> and whose smallest exponent is \<open>decimal_etiny\<close>; texts are shorter than
  the \<open>10 ^ 18\<close> digits that context can hold.
\<close>

datatype decimal =
    Finite bool nat int
  | Infinite bool
  | QNaN bool string
  | SNaN bool string

definition parse_exponent :: "string \<Rightarrow> int option" where
  "parse_exponent r =
     (case r of
        [] \<Rightarrow> Some 0
      | c # t \<Rightarrow>
          if lower_ascii c = CHR ''e'' then
            (case split_sign t of
               (neg, ds) \<Rightarrow>
                 if ds \<noteq> [] \<and> list_all is_digit ds
                 then Some (if neg then - int (nat_of_digits ds) else int (nat_of_digits ds))
                 else None)
          else None)"

definition nan_payload :: "string \<Rightarrow> string" where
  "nan_payload ds = dropWhile (\<lambda>c. c = CHR ''0'') ds"

definition decimal_emax :: int where
  "decimal_emax = 999999999999999999"

definition decimal_etiny :: int where
  "decimal_etiny = - 1999999999999999997"

text \<open>
  A finite value is exact in the constructor's context when its adjusted exponent (the
  exponent plus the number of digits of the coefficient, less one) is at most
  \<open>decimal_emax\<close> and its exponent is at least \<open>decimal_etiny\<close>; the constructor raises
  \<^verbatim>\<open>InvalidOperation\<close> for every other one.
\<close>

definition exponent_in_range :: "nat \<Rightarrow> int \<Rightarrow> bool" where
  "exponent_in_range c e =
     (e + int (length (digits_of c)) - 1 \<le> decimal_emax \<and> decimal_etiny \<le> e)"

text \<open>
  \<^verbatim>\<open>Decimal(s)\<close> for a string: surrounding whitespace is stripped, underscores are
  removed, and the rest must be an optional sign followed by a decimal numeral with an
  optional exponent, by \<^verbatim>\<open>Inf\<close>/\<^verbatim>\<open>Infinity\<close>, or by \<^verbatim>\<open>NaN\<close>/\<^verbatim>\<open>sNaN\<close> with
  optional digits (letters in either case). \<open>None\<close> is \<^verbatim>\<open>decimal.InvalidOperation\<close>.
\<close>

definition Decimal_of_str :: "string \<Rightarrow> decimal option" where
  "Decimal_of_str v =
     (case split_sign (filter (\<lambda>c. c \<noteq> CHR ''_'') (py_strip v)) of
        (neg, r) \<Rightarrow>
          let l = map lower_ascii r in
          if l = ''inf'' \<or> l = ''infinity'' then Some (Infinite neg)
          else if take 3 l = ''nan'' \<and> list_all is_digit (drop 3 l)
            then Some (QNaN neg (nan_payload (drop 3 r)))
          else if take 4 l = ''snan'' \<and> list_all is_digit (drop 4 l)
            then Some (SNaN neg (nan_payload (drop 4 r)))
          else
            let ip = takeWhile is_digit r;
                r1 = dropWhile is_digit r;
                fp = (case r1 of [] \<Rightarrow> [] | c # t \<Rightarrow> if c = CHR ''.'' then takeWhile is_digit t else []);
                r2 = (case r1 of [] \<Rightarrow> [] | c # t \<Rightarrow> if c = CHR ''.'' then dropWhile is_digit t else r1)
            in if ip = [] \<and> fp = [] then None
               else (case parse_exponent r2 of
                       None \<Rightarrow> None
                     | Some e \<Rightarrow>
                         if exponent_in_range (nat_of_digits (ip @ fp)) (e - int (length fp))
                         then Some (Finite neg (nat_of_digits (ip @ fp)) (e - int (length fp)))
                         else None))"

text \<open>
  Rescaling a coefficient \<open>c\<close> with exponent \<open>e\<close> to exponent \<open>-2\<close> under
  \<^verbatim>\<open>ROUND_HALF_UP\<close>: zeros are appended when \<open>e \<ge> -2\<close>; otherwise the last
  \<open>-2 - e\<close> digits are dropped and the rest is incremented when the first dropped digit
  is 5 or more.
\<close>

definition half_up_cents :: "nat \<Rightarrow> int \<Rightarrow> nat" where
  "half_up_cents c e =
     (if - 2 \<le> e then c * 10 ^ nat (e + 2)
      else (c + 10 ^ nat (- 2 - e) div 2) div 10 ^ nat (- 2 - e))"

text \<open>
  \<^verbatim>\<open>d.quantize(Decimal('0.01'), rounding=ROUND_HALF_UP)\<close>. \<open>Inl InvalidOperation\<close>
  when the operand is an infinity or a signalling NaN, or when the result would need more
  than 28 digits. A quiet NaN is returned, its payload cut to the precision.
\<close>

definition quantize_cents :: "decimal \<Rightarrow> decimal result" where
  "quantize_cents d =
     (case d of
        Finite neg c e \<Rightarrow>
          if half_up_cents c e < 10 ^ 28 then Inr (Finite neg (half_up_cents c e) (- 2))
          else Inl InvalidOperation
      | Infinite neg \<Rightarrow> Inl InvalidOperation
      | QNaN neg p \<Rightarrow>
          Inr (QNaN neg (if 28 < length p then nan_payload (drop (length p - 28) p) else p))
      | SNaN neg p \<Rightarrow> Inl InvalidOperation)"

text \<open>\<^verbatim>\<open>str(d)\<close> for the results of \<open>quantize_cents\<close>: exponent \<open>-2\<close>, or a NaN.\<close>

definition str_cents :: "nat \<Rightarrow> string" where
  "str_cents r =
     (let ds = digits_of r; n = length ds
      in if n \<le> 2 then ''0.'' @ replicate (2 - n) (CHR ''0'') @ ds
         else take (n - 2) ds @ ''.'' @ drop (n - 2) ds)"

definition str_decimal :: "decimal \<Rightarrow> string" where
  "str_decimal d =
     (case d of
        Finite neg r e \<Rightarrow> (if neg then ''-'' else '''') @ str_cents r
      | Infinite neg \<Rightarrow> (if neg then ''-'' else '''') @ ''Infinity''
      | QNaN neg p \<Rightarrow> (if neg then ''-'' else '''') @ ''NaN'' @ p
      | SNaN neg p \<Rightarrow> (if neg then ''-'' else '''') @ ''sNaN'' @ p)"

section \<open>Price formatting\<close>

text \<open>
  The body of the \<^verbatim>\<open>try\<close> in \<^verbatim>\<open>format_price\<close>:
  \<^verbatim>\<open>Decimal(str(price)).quantize(Decimal('0.01'), rounding=ROUND_HALF_UP)\<close>, then
  \<^verbatim>\<open>str\<close>.
\<close>

definition format_price_try :: "pyval \<Rightarrow> string result" where
  "format_price_try price =
     bind_result (py_str_checked price) (\<lambda>text.
       case Decimal_of_str text of
         None \<Rightarrow> Inl InvalidOperation
       | Some decimal_price \<Rightarrow>
           bind_result (quantize_cents decimal_price) (\<lambda>formatted. Inr (str_decimal formatted)))"

text \<open>
  \<^verbatim>\<open>format_price\<close>: the handler is \<^verbatim>\<open>except (ValueError, TypeError)\<close> and returns
  \<^verbatim>\<open>str(price)\<close>; every other exception leaves the function.
\<close>

definition format_price :: "pyval \<Rightarrow> string result" where
  "format_price price =
     (case format_price_try price of
        Inl ValueError \<Rightarrow> py_str_checked price
      | Inl TypeError \<Rightarrow> py_str_checked price
      | Inl e \<Rightarrow> Inl e
      | Inr s \<Rightarrow> Inr s)"

section \<open>Price bands\<close>

text \<open>
  A band is a JSON object with the keys \<^verbatim>\<open>min\<close>, \<^verbatim>\<open>max\<close> and \<^verbatim>\<open>price\<close>. The code
  never checks more than the presence of the keys, so a band is any \<open>PyDict\<close>.
  \<^verbatim>\<open>x or []\<close> turns \<^verbatim>\<open>None\<close> into the empty list.
\<close>

definition or_empty :: "'a list option \<Rightarrow> 'a list" where
  "or_empty xs = (case xs of None \<Rightarrow> [] | Some ys \<Rightarrow> ys)"

text \<open>Truth value of a Python object, as \<^verbatim>\<open>if x:\<close> tests it.\<close>

definition py_truthy :: "pyval \<Rightarrow> bool" where
  "py_truthy v =
     (case v of
        PyNone \<Rightarrow> False
      | PyBool b \<Rightarrow> b
      | PyInt i \<Rightarrow> i \<noteq> 0
      | PyFloat r \<Rightarrow> r \<noteq> ''0.0'' \<and> r \<noteq> ''-0.0''
      | PyStr s \<Rightarrow> s \<noteq> []
      | PyList xs \<Rightarrow> xs \<noteq> []
      | PyDict d \<Rightarrow> d \<noteq> [])"

definition validate_band_structure :: "pyval \<Rightarrow> bool" where
  "validate_band_structure band =
     (case band of
        PyDict d \<Rightarrow> ''min'' \<in> set (map fst d) \<and> ''max'' \<in> set (map fst d) \<and> ''price'' \<in> set (map fst d)
      | _ \<Rightarrow> False)"

text \<open>
  The body of the loop that ends \<^verbatim>\<open>parse_bands\<close>: a price that is a string is replaced
  by \<^verbatim>\<open>float(price)\<close>, and kept when the conversion raises \<^verbatim>\<open>ValueError\<close>.
  \<open>float_of\<close> is Python's \<^verbatim>\<open>float\<close> on strings (\<open>None\<close> when it raises), a parameter
  of the model.
\<close>

definition coerce_price :: "(string \<Rightarrow> string option) \<Rightarrow> pyval \<Rightarrow> pyval" where
  "coerce_price float_of band =
     (case band of
        PyDict d \<Rightarrow>
          (case map_of d ''price'' of
             Some (PyStr s) \<Rightarrow>
               (case float_of s of
                  Some f \<Rightarrow> PyDict (AList.update ''price'' (PyFloat f) d)
                | None \<Rightarrow> band)
           | _ \<Rightarrow> band)
      | _ \<Rightarrow> band)"

text \<open>
  \<^verbatim>\<open>parse_bands(value_str, product_name, field_name)\<close>; the two names only appear in
  the printed messages. \<open>json_loads\<close> is \<^verbatim>\<open>json.loads\<close> (\<open>None\<close> when it raises), a
  parameter of the model.
\<close>

definition parse_bands :: "(string \<Rightarrow> pyval option) \<Rightarrow> (string \<Rightarrow> string option) \<Rightarrow> string \<Rightarrow> pyval list" where
  "parse_bands json_loads float_of value_str =
     (case json_loads value_str of
        None \<Rightarrow> []
      | Some data \<Rightarrow>
          (case data of
             PyList xs \<Rightarrow>
               if list_all validate_band_structure xs then map (coerce_price float_of) xs else []
           | _ \<Rightarrow> []))"

text \<open>
  \<^verbatim>\<open>band_label\<close>: \<^verbatim>\<open>f"{band['min']}-{band['max']}"\<close>. Each field is looked up and
  written before the next one is looked up.
\<close>

definition band_label :: "pyval \<Rightarrow> string result" where
  "band_label band =
     (case band of
        PyDict d \<Rightarrow>
          (case map_of d ''min'' of
             None \<Rightarrow> Inl KeyError
           | Some mn \<Rightarrow>
               bind_result (py_str_checked mn) (\<lambda>lo.
                 case map_of d ''max'' of
                   None \<Rightarrow> Inl KeyError
                 | Some mx \<Rightarrow> bind_result (py_str_checked mx) (\<lambda>hi. Inr (lo @ ''-'' @ hi))))
      | _ \<Rightarrow> Inl TypeError)"

subsection \<open>Collecting the labels\<close>

text \<open>
  \<^verbatim>\<open>int(s)\<close> for a string, base 10: surrounding whitespace is skipped, then an optional
  sign and digits, with single underscores allowed between digits, at most 4300 digits
  in all. The whitespace of \<^verbatim>\<open>int\<close> is the whitespace of C and the two code points
  133 and 160; the separators 28 to 31, which \<^verbatim>\<open>str.strip\<close> removes, are not part of
  it. \<open>None\<close> is \<^verbatim>\<open>ValueError\<close>.
\<close>

definition is_int_space :: "char \<Rightarrow> bool" where
  "is_int_space c = ((of_char c :: nat) \<in> {9, 10, 11, 12, 13, 32, 133, 160})"

definition int_strip :: "string \<Rightarrow> string" where
  "int_strip s = rev (dropWhile is_int_space (rev (dropWhile is_int_space s)))"

fun int_digits_ok :: "string \<Rightarrow> bool" where
  "int_digits_ok [] = False"
| "int_digits_ok [c] = is_digit c"
| "int_digits_ok (c # u # cs) =
     (is_digit c \<and> (if u = CHR ''_'' then int_digits_ok cs else int_digits_ok (u # cs)))"

definition py_int :: "string \<Rightarrow> int option" where
  "py_int s =
     (case split_sign (int_strip s) of
        (neg, ds) \<Rightarrow>
          if int_digits_ok ds \<and> length (filter is_digit ds) \<le> 4300
          then Some (if neg then - int (nat_of_digits (filter (\<lambda>c. c \<noteq> CHR ''_'') ds))
                     else int (nat_of_digits (filter (\<lambda>c. c \<noteq> CHR ''_'') ds)))
          else None)"

text \<open>The sort key \<^verbatim>\<open>int(str(x).split("-")[0])\<close> of a label.\<close>

definition label_key :: "string \<Rightarrow> int option" where
  "label_key x = py_int (takeWhile (\<lambda>c. c \<noteq> CHR ''-'') x)"

definition key_or_zero :: "string \<Rightarrow> int" where
  "key_or_zero x = (case label_key x of Some k \<Rightarrow> k | None \<Rightarrow> 0)"

text \<open>
  The order in which a Python \<^verbatim>\<open>set\<close> of strings is iterated is fixed by the hashes of
  its elements, which the interpreter seeds anew at every start. \<open>set_iter\<close> maps the
  sequence of insertions to the sequence of iteration; it is a parameter of the model,
  and \<open>set_order\<close> says what every interpreter guarantees of it: each element once.
\<close>

definition set_order :: "(string list \<Rightarrow> string list) \<Rightarrow> bool" where
  "set_order set_iter = (\<forall>xs. distinct (set_iter xs) \<and> set (set_iter xs) = set xs)"

text \<open>
  \<^verbatim>\<open>collect_unique_band_labels\<close>: \<^verbatim>\<open>sorted\<close> computes every key first, so one label
  whose key raises sends the whole call to the handler, which sorts the strings
  themselves. \<^verbatim>\<open>sorted\<close> is stable, as \<open>sort_key\<close> is.
\<close>

definition collect_unique_band_labels ::
  "(string list \<Rightarrow> string list) \<Rightarrow> pyval list option \<Rightarrow> pyval list option \<Rightarrow> string list result" where
  "collect_unique_band_labels set_iter trade_bands endc_bands =
     bind_result (map_result band_label (or_empty trade_bands @ or_empty endc_bands))
       (\<lambda>ls. let labels = set_iter ls in
          if list_all (\<lambda>x. label_key x \<noteq> None) labels
          then Inr (sort_key key_or_zero labels)
          else Inr (sort labels))"

subsection \<open>The coercion of prices, in the words of the specification\<close>

text \<open>
  A price given as a string becomes the float that \<^verbatim>\<open>float\<close> reads from it; a string
  that \<^verbatim>\<open>float\<close> rejects, and every other value, stays as it is.
\<close>

definition price_as_float :: "(string \<Rightarrow> string option) \<Rightarrow> pyval \<Rightarrow> pyval" where
  "price_as_float float_of v =
     (case v of
        PyStr s \<Rightarrow> (case float_of s of Some f \<Rightarrow> PyFloat f | None \<Rightarrow> v)
      | _ \<Rightarrow> v)"

text \<open>A \<^verbatim>\<open>json.loads\<close> and a \<^verbatim>\<open>float\<close> on a few texts, for the examples.\<close>

definition example_loads :: "string \<Rightarrow> pyval option" where
  "example_loads s =
     (if s = ''[{\"min\": 1, \"max\": 10, \"price\": \"5.00\"}]''
      then Some (PyList [PyDict [(''min'', PyInt 1), (''max'', PyInt 10), (''price'', PyStr ''5.00'')]])
      else if s = ''{\"min\": 1}'' then Some (PyDict [(''min'', PyInt 1)])
      else if s = ''[{\"min\": 1, \"max\": 10, \"price\": 5}, 7]''
      then Some (PyList [PyDict [(''min'', PyInt 1), (''max'', PyInt 10), (''price'', PyInt 5)], PyInt 7])
      else None)"

definition example_float :: "string \<Rightarrow> string option" where
  "example_float s = (if s = ''5.00'' then Some ''5.0'' else None)"

text \<open>The band \<^verbatim>\<open>{"min": mn, "max": mx, "price": p}\<close>, for the examples.\<close>

definition make_band :: "pyval \<Rightarrow> pyval \<Rightarrow> pyval \<Rightarrow> pyval" where
  "make_band mn mx p = PyDict [(''min'', mn), (''max'', mx), (''price'', p)]"

section \<open>Variant synthesis\<close>

text \<open>
  A candidate variant, the dictionary that \<^verbatim>\<open>build_variant_for_band\<close> builds. The
  key \<^verbatim>\<open>option3\<close> is only present in the colour shape.
\<close>

record variant =
  v_price :: string
  v_inventory_management :: "string option"
  v_inventory_policy :: string
  v_requires_shipping :: bool
  v_weight :: int
  v_weight_unit :: string
  v_sku :: string
  v_taxable :: bool
  v_option1 :: string
  v_option2 :: string
  v_option3 :: "string option"

definition band_price :: "pyval \<Rightarrow> pyval result" where
  "band_price band =
     (case band of
        PyDict d \<Rightarrow> (case map_of d ''price'' of None \<Rightarrow> Inl KeyError | Some p \<Rightarrow> Inr p)
      | _ \<Rightarrow> Inl TypeError)"

text \<open>
  \<^verbatim>\<open>build_variant_for_band\<close>; \<^verbatim>\<open>if colour:\<close> is false for \<^verbatim>\<open>None\<close> and for the empty
  string.
\<close>

definition build_variant_for_band ::
  "string \<Rightarrow> pyval \<Rightarrow> string \<Rightarrow> string \<Rightarrow> int \<Rightarrow> string option \<Rightarrow> variant result" where
  "build_variant_for_band label band customer_type sku unit_weight colour =
     bind_result (band_price band) (\<lambda>p.
     bind_result (format_price p) (\<lambda>formatted.
       Inr \<lparr> v_price = formatted,
             v_inventory_management = None,
             v_inventory_policy = ''continue'',
             v_requires_shipping = True,
             v_weight = unit_weight,
             v_weight_unit = ''g'',
             v_sku = sku,
             v_taxable = True,
             v_option1 = (case colour of None \<Rightarrow> label | Some c \<Rightarrow> if c \<noteq> [] then c else label),
             v_option2 = (case colour of None \<Rightarrow> customer_type
                          | Some c \<Rightarrow> if c \<noteq> [] then label else customer_type),
             v_option3 = (case colour of None \<Rightarrow> None
                          | Some c \<Rightarrow> if c \<noteq> [] then Some customer_type else None) \<rparr>))"

text \<open>\<^verbatim>\<open>next((b for b in bands if band_label(b) == label), None)\<close>.\<close>

fun find_band :: "pyval list \<Rightarrow> string \<Rightarrow> pyval option result" where
  "find_band [] label = Inr None"
| "find_band (b # bs) label =
     bind_result (band_label b) (\<lambda>l. if l = label then Inr (Some b) else find_band bs label)"

text \<open>
  The body of the loop over the labels, the same in both branches of
  \<^verbatim>\<open>build_variants\<close>: the variants appended for one label.
\<close>

definition variant_if_band ::
  "pyval option \<Rightarrow> string \<Rightarrow> string \<Rightarrow> string \<Rightarrow> int \<Rightarrow> string option \<Rightarrow> variant list result" where
  "variant_if_band found label customer_type sku unit_weight colour =
     (case found of
        None \<Rightarrow> Inr []
      | Some band \<Rightarrow>
          if py_truthy band
          then bind_result (build_variant_for_band label band customer_type sku unit_weight colour)
                 (\<lambda>v. Inr [v])
          else Inr [])"

definition variants_for_label ::
  "pyval list \<Rightarrow> pyval list \<Rightarrow> string \<Rightarrow> int \<Rightarrow> string option \<Rightarrow> string \<Rightarrow> variant list result" where
  "variants_for_label trade endc sku unit_weight colour label =
     bind_result (find_band trade label) (\<lambda>t_band.
     bind_result (find_band endc label) (\<lambda>e_band.
     bind_result (variant_if_band t_band label ''Trade'' sku unit_weight colour) (\<lambda>ts.
     bind_result (variant_if_band e_band label ''End Customer'' sku unit_weight colour) (\<lambda>es.
       Inr (ts @ es)))))"

definition concat_result :: "'a list list result \<Rightarrow> 'a list result" where
  "concat_result r = bind_result r (\<lambda>xss. Inr (concat xss))"

text \<open>
  \<^verbatim>\<open>build_variants(trade_bands, endc_bands, sku, unit_weight, colours, colour_codes)\<close>.
  The colour branch is taken when \<^verbatim>\<open>colours\<close> is a non-empty list; the SKU of a colour
  is \<^verbatim>\<open>sku + '/' + colour_code\<close> when the colour has a non-empty code.
\<close>

definition variant_sku :: "string \<Rightarrow> (string \<times> string) list option \<Rightarrow> string \<Rightarrow> string" where
  "variant_sku sku colour_codes colour =
     (case map_of (or_empty colour_codes) colour of
        None \<Rightarrow> sku
      | Some colour_code \<Rightarrow> if colour_code \<noteq> [] then sku @ ''/'' @ colour_code else sku)"

definition build_variants ::
  "(string list \<Rightarrow> string list) \<Rightarrow> pyval list option \<Rightarrow> pyval list option \<Rightarrow> string \<Rightarrow> int \<Rightarrow>
   string list option \<Rightarrow> (string \<times> string) list option \<Rightarrow> variant list result" where
  "build_variants set_iter trade_bands endc_bands sku unit_weight colours colour_codes =
     bind_result (collect_unique_band_labels set_iter trade_bands endc_bands) (\<lambda>labels.
       if or_empty colours \<noteq> []
       then concat_result (map_result
              (\<lambda>colour. concat_result (map_result
                 (variants_for_label (or_empty trade_bands) (or_empty endc_bands)
                    (variant_sku sku colour_codes colour) unit_weight (Some colour)) labels))
              (or_empty colours))
       else concat_result (map_result
              (variants_for_label (or_empty trade_bands) (or_empty endc_bands) sku unit_weight None)
              labels))"

text \<open>The option values that identify a variant.\<close>

definition option_tuple :: "variant \<Rightarrow> string \<times> string \<times> string option" where
  "option_tuple v = (v_option1 v, v_option2 v, v_option3 v)"

text \<open>
  The option values that the code gives a variant of a colour, a label and a customer
  type: the colour shape for a non-empty colour, the plain shape otherwise.
\<close>

definition shape_tuple :: "string option \<Rightarrow> string \<Rightarrow> string \<Rightarrow> string \<times> string \<times> string option" where
  "shape_tuple colour label customer_type =
     (case colour of
        None \<Rightarrow> (label, customer_type, None)
      | Some c \<Rightarrow> if c \<noteq> [] then (c, label, Some customer_type) else (label, customer_type, None))"

text \<open>A candidate variant with the constant fields filled in, for the examples.\<close>

definition candidate ::
  "string \<Rightarrow> int \<Rightarrow> string \<Rightarrow> string \<Rightarrow> string \<Rightarrow> string option \<Rightarrow> variant" where
  "candidate p w s o1 o2 o3 =
     \<lparr> v_price = p, v_inventory_management = None, v_inventory_policy = ''continue'',
       v_requires_shipping = True, v_weight = w, v_weight_unit = ''g'', v_sku = s,
       v_taxable = True, v_option1 = o1, v_option2 = o2, v_option3 = o3 \<rparr>"

section \<open>Enrichment of the bands with variant ids\<close>

text \<open>
  The variants confirmed by the shop are the dictionaries of its JSON reply.
  \<open>dict_get v k\<close> is \<^verbatim>\<open>v.get(k)\<close>: \<^verbatim>\<open>None\<close> for a missing key, and an
  \<^verbatim>\<open>AttributeError\<close> where \<open>v\<close> is no dictionary. \<open>dict_get_default\<close> is
  \<^verbatim>\<open>v.get(k, default)\<close>.
\<close>

definition dict_get :: "pyval \<Rightarrow> string \<Rightarrow> pyval result" where
  "dict_get v k =
     (case v of
        PyDict d \<Rightarrow> Inr (case map_of d k of None \<Rightarrow> PyNone | Some x \<Rightarrow> x)
      | _ \<Rightarrow> Inl AttributeError)"

definition dict_get_default :: "pyval \<Rightarrow> string \<Rightarrow> pyval \<Rightarrow> pyval result" where
  "dict_get_default v k dflt =
     (case v of
        PyDict d \<Rightarrow> Inr (case map_of d k of None \<Rightarrow> dflt | Some x \<Rightarrow> x)
      | _ \<Rightarrow> Inl AttributeError)"

text \<open>The comparison \<^verbatim>\<open>x == s\<close> of a value with a string.\<close>

definition eq_str :: "pyval \<Rightarrow> string \<Rightarrow> bool" where
  "eq_str x s = (x = PyStr s)"

text \<open>
  The three conditions of the generator expressions. \<^verbatim>\<open>and\<close> stops at the first
  false operand.
\<close>

definition match_colour :: "string \<Rightarrow> string \<Rightarrow> string \<Rightarrow> pyval \<Rightarrow> bool result" where
  "match_colour colour label customer_type v =
     bind_result (dict_get v ''option1'') (\<lambda>o1.
       if \<not> eq_str o1 colour then Inr False
       else bind_result (dict_get v ''option2'') (\<lambda>o2.
         if \<not> eq_str o2 label then Inr False
         else bind_result (dict_get v ''option3'') (\<lambda>o3. Inr (eq_str o3 customer_type))))"

definition match_plain :: "string \<Rightarrow> string \<Rightarrow> pyval \<Rightarrow> bool result" where
  "match_plain label customer_type v =
     bind_result (dict_get v ''option1'') (\<lambda>o1.
       if \<not> eq_str o1 label then Inr False
       else bind_result (dict_get v ''option2'') (\<lambda>o2. Inr (eq_str o2 customer_type)))"

definition match_any_colour :: "string \<Rightarrow> string \<Rightarrow> pyval \<Rightarrow> bool result" where
  "match_any_colour label customer_type v =
     bind_result (dict_get v ''option2'') (\<lambda>o2.
       if \<not> eq_str o2 label then Inr False
       else bind_result (dict_get v ''option3'') (\<lambda>o3. Inr (eq_str o3 customer_type)))"

text \<open>\<^verbatim>\<open>next((v for v in vs if p(v)), None)\<close>: the first element that passes.\<close>

fun next_match :: "(pyval \<Rightarrow> bool result) \<Rightarrow> pyval list \<Rightarrow> pyval option result" where
  "next_match p [] = Inr None"
| "next_match p (v # vs) =
     bind_result (p v) (\<lambda>b. if b then Inr (Some v) else next_match p vs)"

text \<open>The truth value of \<^verbatim>\<open>match\<close>, which is \<^verbatim>\<open>None\<close> or a variant.\<close>

definition match_truthy :: "pyval option \<Rightarrow> bool" where
  "match_truthy m = (case m of None \<Rightarrow> False | Some v \<Rightarrow> py_truthy v)"

text \<open>
  The search of one band. Without a colour the two-option shape is tried first and the
  three-option shape second, where the colour in \<^verbatim>\<open>option1\<close> is not looked at. The
  message printed after a match of the second kind formats \<^verbatim>\<open>option1\<close> of the
  variant, which can raise; what is printed is not part of the model.
\<close>

definition find_variant ::
  "pyval list \<Rightarrow> string \<Rightarrow> string \<Rightarrow> string option \<Rightarrow> pyval option result" where
  "find_variant updated_variants label customer_type colour =
     (if colour \<noteq> None \<and> colour \<noteq> Some []
      then next_match (match_colour (the colour) label customer_type) updated_variants
      else bind_result (next_match (match_plain label customer_type) updated_variants) (\<lambda>m.
        if \<not> match_truthy m
        then bind_result (next_match (match_any_colour label customer_type) updated_variants) (\<lambda>m2.
          case m2 of
            None \<Rightarrow> Inr None
          | Some v \<Rightarrow>
              if py_truthy v
              then bind_result (dict_get_default v ''option1'' (PyStr ''unknown'')) (\<lambda>o1.
                     bind_result (py_str_checked o1) (\<lambda>_. Inr m2))
              else Inr m2)
        else Inr m))"

text \<open>
  \<^verbatim>\<open>{**band, "id": match["id"]}\<close> with the price formatted when the key is there. A
  key that is present keeps its place, a new one goes to the end, as \<open>AList.update\<close>
  does.
\<close>

definition enriched_band :: "(string \<times> pyval) list \<Rightarrow> pyval \<Rightarrow> pyval result" where
  "enriched_band d i =
     (let d' = AList.update ''id'' i d in
      case map_of d' ''price'' of
        None \<Rightarrow> Inr (PyDict d')
      | Some p \<Rightarrow> bind_result (format_price p) (\<lambda>s. Inr (PyDict (AList.update ''price'' (PyStr s) d'))))"

text \<open>
  The body of the loop for one band: the enriched band, or \<open>None\<close> where the band is
  left out.
\<close>

definition enrich_band ::
  "pyval \<Rightarrow> pyval list \<Rightarrow> string \<Rightarrow> string option \<Rightarrow> pyval option result" where
  "enrich_band band updated_variants customer_type colour =
     bind_result (band_label band) (\<lambda>label.
       bind_result (find_variant updated_variants label customer_type colour) (\<lambda>m.
         case m of
           None \<Rightarrow> Inr None
         | Some v \<Rightarrow>
             if py_truthy v
             then bind_result (dict_get v ''id'') (\<lambda>i.
                    if py_truthy i
                    then (case band of
                            PyDict d \<Rightarrow> bind_result (enriched_band d i) (\<lambda>eb. Inr (Some eb))
                          | _ \<Rightarrow> Inl TypeError)
                    else Inr None)
             else Inr None))"

fun enrich_loop ::
  "pyval list \<Rightarrow> pyval list \<Rightarrow> string \<Rightarrow> string option \<Rightarrow> pyval list result" where
  "enrich_loop [] updated_variants customer_type colour = Inr []"
| "enrich_loop (band # bands) updated_variants customer_type colour =
     bind_result (enrich_band band updated_variants customer_type colour) (\<lambda>r.
       bind_result (enrich_loop bands updated_variants customer_type colour) (\<lambda>rest.
         Inr (case r of None \<Rightarrow> rest | Some eb \<Rightarrow> eb # rest)))"

definition enrich_bands_with_variant_ids ::
  "pyval list option \<Rightarrow> pyval list \<Rightarrow> string \<Rightarrow> string option \<Rightarrow> pyval list result" where
  "enrich_bands_with_variant_ids bands updated_variants customer_type colour =
     enrich_loop (or_empty bands) updated_variants customer_type colour"

text \<open>
  \<^verbatim>\<open>process_product\<close> enriches the trade bands and the end-customer bands, both times
  with \<^verbatim>\<open>None\<close> for the colour, whatever colours the product has.
\<close>

definition process_product_enrich ::
  "pyval list option \<Rightarrow> pyval list option \<Rightarrow> pyval list \<Rightarrow> (pyval list \<times> pyval list) result" where
  "process_product_enrich trade_raw endc_raw updated_variants =
     bind_result (enrich_bands_with_variant_ids trade_raw updated_variants ''Trade'' None)
       (\<lambda>enriched_trade.
          bind_result (enrich_bands_with_variant_ids endc_raw updated_variants ''End Customer'' None)
            (\<lambda>enriched_endc. Inr (enriched_trade, enriched_endc)))"

text \<open>
  What the search accepts for a band with the label \<open>label\<close>: with a colour, the three
  options; without, the two options or, in the three-option shape, the last two.
\<close>

definition option_is :: "(string \<times> pyval) list \<Rightarrow> string \<Rightarrow> string \<Rightarrow> bool" where
  "option_is vd k s = (map_of vd k = Some (PyStr s))"


section \<open>The calls to the shop\<close>

text \<open>
  The script talks to the shop through \<^verbatim>\<open>requests\<close>. A request is its method, its URL
  and its JSON payload; the headers are the same on every call and are left out. Of a
  response the script reads the status code and the decoded body, where \<open>None\<close> stands
  for a body that \<^verbatim>\<open>resp.json()\<close> cannot decode. The shop is a function from what has
  happened so far and the request to its reply, or to no reply at all, in which case
  \<^verbatim>\<open>requests\<close> raises. What has happened is the trace of the requests sent and of the
  pauses made, in milliseconds. Messages printed are not part of the model; the product
  name and the SKU, which the functions below use in messages only, are left out of
  their arguments.
\<close>

record request =
  rq_method :: string
  rq_url :: string
  rq_json :: "pyval option"

record response =
  status_code :: int
  json_body :: "pyval option"

datatype reply = Answer response | NoAnswer

datatype event = Sent request | Sleep nat

type_synonym trace = "event list"

type_synonym server = "trace \<Rightarrow> request \<Rightarrow> reply"

text \<open>The two settings of \<^verbatim>\<open>config.py\<close> that the URLs are made of.\<close>

record config =
  store_domain :: string
  api_version :: string

definition requests_request :: "server \<Rightarrow> request \<Rightarrow> trace \<Rightarrow> response result \<times> trace" where
  "requests_request srv rq tr =
     (case srv tr rq of
        Answer resp \<Rightarrow> (Inr resp, tr @ [Sent rq])
      | NoAnswer \<Rightarrow> (Inl ConnectionError, tr @ [Sent rq]))"

text \<open>\<^verbatim>\<open>resp.json()\<close>: a \<^verbatim>\<open>ValueError\<close> where the body does not decode.\<close>

definition response_json :: "response \<Rightarrow> pyval result" where
  "response_json resp = (case json_body resp of None \<Rightarrow> Inl ValueError | Some v \<Rightarrow> Inr v)"

text \<open>
  \<^verbatim>\<open>safe_request\<close>: the loop goes round for as long as the shop answers 429, so the
  function is partial and \<open>None\<close> is the run that never returns.
  \<^verbatim>\<open>raise_for_status\<close> raises for the codes from 400 to 599.
\<close>

partial_function (option) safe_request ::
  "server \<Rightarrow> request \<Rightarrow> trace \<Rightarrow> (response result \<times> trace) option" where
  "safe_request srv rq tr =
     (case requests_request srv rq tr of
        (Inl e, tr') \<Rightarrow> Some (Inl e, tr')
      | (Inr resp, tr') \<Rightarrow>
          if status_code resp = 429 then safe_request srv rq (tr' @ [Sleep 2000])
          else if 400 \<le> status_code resp \<and> status_code resp < 600 then Some (Inl HTTPError, tr')
          else Some (Inr resp, tr'))"

subsection \<open>Updating the variants of a product\<close>

text \<open>The dictionary of a candidate variant, as it goes into the payload.\<close>

definition variant_dict :: "variant \<Rightarrow> pyval" where
  "variant_dict v =
     PyDict ([(''price'', PyStr (v_price v)),
              (''inventory_management'',
                 (case v_inventory_management v of None \<Rightarrow> PyNone | Some m \<Rightarrow> PyStr m)),
              (''inventory_policy'', PyStr (v_inventory_policy v)),
              (''requires_shipping'', PyBool (v_requires_shipping v)),
              (''weight'', PyInt (v_weight v)),
              (''weight_unit'', PyStr (v_weight_unit v)),
              (''sku'', PyStr (v_sku v)),
              (''taxable'', PyBool (v_taxable v)),
              (''option1'', PyStr (v_option1 v)),
              (''option2'', PyStr (v_option2 v))]
             @ (case v_option3 v of None \<Rightarrow> [] | Some o3 \<Rightarrow> [(''option3'', PyStr o3)]))"

text \<open>
  The option values collected from the variants whose \<^verbatim>\<open>option1\<close> is not empty, in
  the order in which they are added to the three sets.
\<close>

definition colour_values :: "variant list \<Rightarrow> string list \<Rightarrow> string list" where
  "colour_values variants colours =
     (if colours \<noteq> [] then map v_option1 (filter (\<lambda>v. v_option1 v \<noteq> []) variants) else [])"

definition quantity_values :: "variant list \<Rightarrow> string list \<Rightarrow> string list" where
  "quantity_values variants colours =
     (if colours \<noteq> [] then map v_option2 (filter (\<lambda>v. v_option1 v \<noteq> []) variants)
      else map v_option1 (filter (\<lambda>v. v_option1 v \<noteq> []) variants))"

definition customer_type_values :: "variant list \<Rightarrow> string list \<Rightarrow> string list" where
  "customer_type_values variants colours =
     (if colours \<noteq> []
      then map (\<lambda>v. case v_option3 v of None \<Rightarrow> [] | Some o3 \<Rightarrow> o3)
             (filter (\<lambda>v. v_option1 v \<noteq> []) variants)
      else map v_option2 (filter (\<lambda>v. v_option1 v \<noteq> []) variants))"

text \<open>
  An option with the sorted list of its values, or the bare option where it has none.
  Sorting the elements of a set gives the sorted list without repetitions, whatever the
  order of the set.
\<close>

definition option_with_values :: "string \<Rightarrow> string list \<Rightarrow> pyval" where
  "option_with_values option_name values =
     (if values \<noteq> []
      then PyDict [(''name'', PyStr option_name),
                   (''values'', PyList (map PyStr (sort (remdups values))))]
      else PyDict [(''name'', PyStr option_name)])"

definition options_with_values :: "variant list \<Rightarrow> string list \<Rightarrow> pyval list" where
  "options_with_values variants colours =
     (if colours \<noteq> []
      then [option_with_values ''Colour'' (colour_values variants colours),
            option_with_values ''Quantity'' (quantity_values variants colours),
            option_with_values ''Customer Type'' (customer_type_values variants colours)]
      else [option_with_values ''Quantity'' (quantity_values variants colours),
            option_with_values ''Customer Type'' (customer_type_values variants colours)])"

definition product_payload :: "pyval \<Rightarrow> variant list \<Rightarrow> string list \<Rightarrow> pyval" where
  "product_payload product_id variants colours =
     PyDict [(''product'',
        PyDict [(''id'', product_id),
                (''options'', PyList (options_with_values variants colours)),
                (''variants'', PyList (map variant_dict variants))])]"

definition product_url :: "config \<Rightarrow> string \<Rightarrow> string" where
  "product_url cfg pid =
     ''https://'' @ store_domain cfg @ ''/admin/api/'' @ api_version cfg @ ''/products/'' @ pid
       @ ''.json''"

text \<open>Whether \<^verbatim>\<open>len\<close> accepts the value.\<close>

definition has_len :: "pyval \<Rightarrow> bool" where
  "has_len v = (case v of PyList xs \<Rightarrow> True | PyDict d \<Rightarrow> True | PyStr s \<Rightarrow> True | _ \<Rightarrow> False)"

text \<open>
  What the branch for the status 200 returns: the variants of the product in the reply.
  Every exception on the way there is caught and gives the empty list.
\<close>

definition created_variants :: "response \<Rightarrow> pyval" where
  "created_variants resp =
     (case bind_result (response_json resp) (\<lambda>data.
             bind_result (dict_get_default data ''product'' (PyDict [])) (\<lambda>result.
               dict_get_default result ''variants'' (PyList []))) of
        Inl e \<Rightarrow> PyList []
      | Inr vs \<Rightarrow> if has_len vs then vs else PyList [])"

text \<open>
  \<^verbatim>\<open>update_product_variants\<close>: one \<^verbatim>\<open>requests.put\<close> with the options and all the
  variants. The URL is formatted before the \<^verbatim>\<open>try\<close>; from the request on, every
  exception and every status other than 200 gives the empty list.
\<close>

definition update_product_variants ::
  "config \<Rightarrow> server \<Rightarrow> pyval \<Rightarrow> variant list \<Rightarrow> string list \<Rightarrow> trace \<Rightarrow> pyval result \<times> trace" where
  "update_product_variants cfg srv product_id variants colours tr =
     (case py_str_checked product_id of
        Inl e \<Rightarrow> (Inl e, tr)
      | Inr pid \<Rightarrow>
          (case requests_request srv
                  \<lparr> rq_method = ''PUT'', rq_url = product_url cfg pid,
                    rq_json = Some (product_payload product_id variants colours) \<rparr> tr of
             (Inl e, tr') \<Rightarrow> (Inr (PyList []), tr')
           | (Inr resp, tr') \<Rightarrow>
               if status_code resp = 200 then (Inr (created_variants resp), tr')
               else (Inr (PyList []), tr')))"

subsection \<open>Writing a metafield\<close>

text \<open>
  \<^verbatim>\<open>json.dumps\<close> is a parameter \<open>json_dumps\<close> of the model. Both writers go through
  \<^verbatim>\<open>safe_request\<close>.
\<close>

definition metafield_url :: "config \<Rightarrow> string \<Rightarrow> string" where
  "metafield_url cfg mid =
     ''https://'' @ store_domain cfg @ ''/admin/api/'' @ api_version cfg @ ''/metafields/'' @ mid
       @ ''.json''"

definition metafields_url :: "config \<Rightarrow> string" where
  "metafields_url cfg =
     ''https://'' @ store_domain cfg @ ''/admin/api/'' @ api_version cfg @ ''/metafields.json''"

definition update_metafield ::
  "config \<Rightarrow> server \<Rightarrow> (pyval \<Rightarrow> string) \<Rightarrow> pyval \<Rightarrow> pyval \<Rightarrow> trace \<Rightarrow>
   (pyval result \<times> trace) option" where
  "update_metafield cfg srv json_dumps metafield_id val tr =
     (case py_str_checked metafield_id of
        Inl e \<Rightarrow> Some (Inl e, tr)
      | Inr mid \<Rightarrow>
          (case safe_request srv
                  \<lparr> rq_method = ''PUT'', rq_url = metafield_url cfg mid,
                    rq_json = Some (PyDict [(''metafield'',
                      PyDict [(''id'', metafield_id), (''value'', PyStr (json_dumps val))])]) \<rparr> tr of
             None \<Rightarrow> None
           | Some (Inl e, tr') \<Rightarrow> Some (Inl e, tr')
           | Some (Inr resp, tr') \<Rightarrow> Some (Inr (PyBool (status_code resp = 200)), tr')))"

definition create_metafield ::
  "config \<Rightarrow> server \<Rightarrow> (pyval \<Rightarrow> string) \<Rightarrow> pyval \<Rightarrow> string \<Rightarrow> pyval \<Rightarrow> trace \<Rightarrow>
   (pyval result \<times> trace) option" where
  "create_metafield cfg srv json_dumps product_id key val tr =
     (case safe_request srv
             \<lparr> rq_method = ''POST'', rq_url = metafields_url cfg,
               rq_json = Some (PyDict [(''metafield'',
                 PyDict [(''namespace'', PyStr ''custom''), (''key'', PyStr key),
                         (''value'', PyStr (json_dumps val)),
                         (''type'', PyStr ''single_line_text_field''),
                         (''owner_id'', product_id),
                         (''owner_resource'', PyStr ''product'')])]) \<rparr> tr of
        None \<Rightarrow> None
      | Some (Inl e, tr') \<Rightarrow> Some (Inl e, tr')
      | Some (Inr resp, tr') \<Rightarrow>
          if status_code resp = 201
          then Some (bind_result (response_json resp) (\<lambda>data.
                     bind_result (dict_get data ''metafield'') (\<lambda>m.
                       bind_result (dict_get (if py_truthy m then m else PyDict []) ''id'') (\<lambda>i.
                         bind_result (py_str_checked i) (\<lambda>_. Inr i)))), tr')
          else Some (Inr PyNone, tr'))"

text \<open>
  \<^verbatim>\<open>set_or_update_metafield\<close>: the metafield is updated where the product has it with
  an id, and created otherwise. It returns nothing.
\<close>

definition set_or_update_metafield ::
  "config \<Rightarrow> server \<Rightarrow> (pyval \<Rightarrow> string) \<Rightarrow> (string \<times> pyval) list \<Rightarrow> pyval \<Rightarrow> string \<Rightarrow> pyval \<Rightarrow>
   trace \<Rightarrow> (unit result \<times> trace) option" where
  "set_or_update_metafield cfg srv json_dumps metafields product_id key val tr =
     (case map_of metafields key of
        None \<Rightarrow>
          map_option (\<lambda>(r, tr'). (map_sum id (\<lambda>_. ()) r, tr'))
            (create_metafield cfg srv json_dumps product_id key val tr)
      | Some mf \<Rightarrow>
          (case dict_get mf ''id'' of
             Inl e \<Rightarrow> Some (Inl e, tr)
           | Inr i \<Rightarrow>
               if py_truthy i
               then map_option (\<lambda>(r, tr'). (map_sum id (\<lambda>_. ()) r, tr'))
                      (update_metafield cfg srv json_dumps i val tr)
               else map_option (\<lambda>(r, tr'). (map_sum id (\<lambda>_. ()) r, tr'))
                      (create_metafield cfg srv json_dumps product_id key val tr)))"

subsection \<open>One product\<close>

text \<open>
  The first part of \<^verbatim>\<open>process_product\<close>, up to the deletion of the old variants,
  reads the product and its metafields, builds the candidate variants and removes the
  variants the shop has; it is a parameter \<open>prepare\<close> of the model, which either ends
  the run without a result, or raises, or hands on what the second part works with.
  \<^verbatim>\<open>attach_main_image_to_variants\<close> is a parameter \<open>attach\<close> in the same way.
\<close>

record prepared =
  p_product_id :: pyval
  p_variants :: "variant list"
  p_colours :: "string list"
  p_metafields :: "(string \<times> pyval) list"
  p_trade_raw :: "pyval list"
  p_endc_raw :: "pyval list"

datatype preparation = Skipped | Prepared prepared

text \<open>The elements that a \<^verbatim>\<open>for\<close> over the value visits, for the values \<^verbatim>\<open>len\<close> accepts.\<close>

definition py_iter :: "pyval \<Rightarrow> pyval list" where
  "py_iter v =
     (case v of
        PyList xs \<Rightarrow> xs
      | PyDict d \<Rightarrow> map (\<lambda>kv. PyStr (fst kv)) d
      | PyStr s \<Rightarrow> map (\<lambda>c. PyStr [c]) s
      | _ \<Rightarrow> [])"

text \<open>
  The handler \<^verbatim>\<open>except Exception\<close> of \<^verbatim>\<open>process_product\<close> prints the title of the
  product and returns \<^verbatim>\<open>False\<close>.
\<close>

definition product_failed :: "pyval \<Rightarrow> pyval result" where
  "product_failed product =
     bind_result (dict_get_default product ''title'' (PyStr ''Unknown'')) (\<lambda>title.
       bind_result (py_str_checked title) (\<lambda>_. Inr (PyBool False)))"

text \<open>
  The steps after the metafields are written: the images are attached and the run
  returns \<^verbatim>\<open>True\<close>.
\<close>

definition attach_images ::
  "(pyval \<Rightarrow> string list \<Rightarrow> pyval \<Rightarrow> trace \<Rightarrow> (unit result \<times> trace) option) \<Rightarrow>
   pyval \<Rightarrow> prepared \<Rightarrow> trace \<Rightarrow> (pyval result \<times> trace) option" where
  "attach_images attach product p tr =
     (case bind_result (dict_get product ''_colour_images'') (\<lambda>colour_images.
             bind_result (py_str_checked colour_images) (\<lambda>_. Inr colour_images)) of
        Inl e \<Rightarrow> Some (product_failed product, tr)
      | Inr colour_images \<Rightarrow>
          (case attach (p_product_id p) (p_colours p) colour_images tr of
             None \<Rightarrow> None
           | Some (Inl e, tr') \<Rightarrow> Some (product_failed product, tr')
           | Some (Inr _, tr') \<Rightarrow> Some (Inr (PyBool True), tr')))"

text \<open>The two metafield writes, \<^verbatim>\<open>pricejsontid\<close> first.\<close>

definition write_metafields ::
  "config \<Rightarrow> server \<Rightarrow> (pyval \<Rightarrow> string) \<Rightarrow> prepared \<Rightarrow> pyval list \<Rightarrow> pyval list \<Rightarrow> trace \<Rightarrow>
   (unit result \<times> trace) option" where
  "write_metafields cfg srv json_dumps p enriched_trade enriched_endc tr =
     (case set_or_update_metafield cfg srv json_dumps (p_metafields p) (p_product_id p)
             ''pricejsontid'' (PyList enriched_trade) tr of
        None \<Rightarrow> None
      | Some (Inl e, tr') \<Rightarrow> Some (Inl e, tr')
      | Some (Inr _, tr') \<Rightarrow>
          set_or_update_metafield cfg srv json_dumps (p_metafields p) (p_product_id p)
            ''pricejsoneid'' (PyList enriched_endc) tr')"

text \<open>
  The second part of \<^verbatim>\<open>process_product\<close>: the variants are sent; where none come
  back the run returns \<^verbatim>\<open>False\<close>; otherwise the bands are enriched, the two
  metafields written and the images attached. An exception at any step goes to the
  handler.
\<close>

definition finish_product ::
  "(pyval \<Rightarrow> string list \<Rightarrow> pyval \<Rightarrow> trace \<Rightarrow> (unit result \<times> trace) option) \<Rightarrow>
   config \<Rightarrow> server \<Rightarrow> (pyval \<Rightarrow> string) \<Rightarrow> pyval \<Rightarrow> prepared \<Rightarrow> trace \<Rightarrow>
   (pyval result \<times> trace) option" where
  "finish_product attach cfg srv json_dumps product p tr =
     (case update_product_variants cfg srv (p_product_id p) (p_variants p) (p_colours p) tr of
        (Inl e, tr1) \<Rightarrow> Some (product_failed product, tr1)
      | (Inr updated_variants, tr1) \<Rightarrow>
          if \<not> py_truthy updated_variants then Some (Inr (PyBool False), tr1)
          else
            (case process_product_enrich (Some (p_trade_raw p)) (Some (p_endc_raw p))
                    (py_iter updated_variants) of
               Inl e \<Rightarrow> Some (product_failed product, tr1)
             | Inr (enriched_trade, enriched_endc) \<Rightarrow>
                 (case write_metafields cfg srv json_dumps p enriched_trade enriched_endc tr1 of
                    None \<Rightarrow> None
                  | Some (Inl e, tr2) \<Rightarrow> Some (product_failed product, tr2)
                  | Some (Inr _, tr2) \<Rightarrow> attach_images attach product p tr2)))"

definition process_product ::
  "(pyval \<Rightarrow> trace \<Rightarrow> (preparation result \<times> trace) option) \<Rightarrow>
   (pyval \<Rightarrow> string list \<Rightarrow> pyval \<Rightarrow> trace \<Rightarrow> (unit result \<times> trace) option) \<Rightarrow>
   config \<Rightarrow> server \<Rightarrow> (pyval \<Rightarrow> string) \<Rightarrow> pyval \<Rightarrow> trace \<Rightarrow>
   (pyval result \<times> trace) option" where
  "process_product prepare attach cfg srv json_dumps product tr =
     (case prepare product tr of
        None \<Rightarrow> None
      | Some (Inl e, tr') \<Rightarrow> Some (product_failed product, tr')
      | Some (Inr Skipped, tr') \<Rightarrow> Some (Inr PyNone, tr')
      | Some (Inr (Prepared p), tr') \<Rightarrow> finish_product attach cfg srv json_dumps product p tr')"

subsection \<open>The batch\<close>

text \<open>
  The loop of \<^verbatim>\<open>main\<close> over the products, with the two counters. The call of
  \<^verbatim>\<open>process_product\<close> is the parameter \<open>process\<close>. The message at the head of the body
  formats the title of the product; an exception there goes to the handler of the loop,
  whose own message formats the title again, so that the exception leaves the loop: this
  is the result \<open>Inl\<close>. After a product that returned, the loop pauses unless the product
  was the last.
\<close>

fun main_loop ::
  "(pyval \<Rightarrow> trace \<Rightarrow> (pyval result \<times> trace) option) \<Rightarrow> pyval list \<Rightarrow> nat \<Rightarrow> nat \<Rightarrow> trace \<Rightarrow>
   ((nat \<times> nat) result \<times> trace) option" where
  "main_loop process [] successful failed tr = Some (Inr (successful, failed), tr)"
| "main_loop process (product # products) successful failed tr =
     (case bind_result (dict_get_default product ''title'' (PyStr ''Unknown'')) py_str_checked of
        Inl e \<Rightarrow> Some (Inl e, tr)
      | Inr _ \<Rightarrow>
          (case process product tr of
             None \<Rightarrow> None
           | Some (Inl e, tr') \<Rightarrow> main_loop process products successful (failed + 1) tr'
           | Some (Inr _, tr') \<Rightarrow>
               main_loop process products (successful + 1) failed
                 (if products \<noteq> [] then tr' @ [Sleep 700] else tr')))"

text \<open>
  The requests that write a metafield are the \<^verbatim>\<open>PUT\<close> and \<^verbatim>\<open>POST\<close> requests under
  \<^verbatim>\<open>/metafields\<close>.
\<close>

definition metafield_write :: "config \<Rightarrow> event \<Rightarrow> bool" where
  "metafield_write cfg e =
     (case e of
        Sent rq \<Rightarrow>
          (rq_method rq = ''PUT'' \<or> rq_method rq = ''POST'')
          \<and> prefix (''https://'' @ store_domain cfg @ ''/admin/api/'' @ api_version cfg @ ''/metafields'')
                (rq_url rq)
      | Sleep ms \<Rightarrow> False)"

section \<open>Results and exceptions\<close>

lemma bind_result_Inr_iff:
  "bind_result r f = Inr y \<longleftrightarrow> (\<exists>x. r = Inr x \<and> f x = Inr y)"
  by (cases r) (simp_all add: bind_result_def)

lemma bind_result_Inr [simp]: "bind_result (Inr x) f = f x"
  by (simp add: bind_result_def)

lemma bind_result_Inl [simp]: "bind_result (Inl e) f = Inl e"
  by (simp add: bind_result_def)


section \<open>Digits, rounding and the rendering of prices\<close>

lemma char_of_digit_codes:
  "char_of (48::nat) = CHR ''0''" "char_of (49::nat) = CHR ''1''" "char_of (50::nat) = CHR ''2''"
  "char_of (51::nat) = CHR ''3''" "char_of (52::nat) = CHR ''4''" "char_of (53::nat) = CHR ''5''"
  "char_of (54::nat) = CHR ''6''" "char_of (55::nat) = CHR ''7''" "char_of (56::nat) = CHR ''8''"
  "char_of (57::nat) = CHR ''9''"
  by code_simp+

lemma digits_of_nonempty: "digits_of n \<noteq> []"
  by (subst digits_of.simps) simp

lemma digits_of_small: "n < 10 \<Longrightarrow> digits_of n = [digit_char n]"
  by (subst digits_of.simps) simp

lemma digits_of_step: "10 \<le> n \<Longrightarrow> digits_of n = digits_of (n div 10) @ [digit_char (n mod 10)]"
  by (subst digits_of.simps) simp

lemma digits_of_two: "100 \<le> n \<Longrightarrow>
  digits_of n = digits_of (n div 100) @ [digit_char (n div 10 mod 10), digit_char (n mod 10)]"
proof -
  assume h: "100 \<le> n"
  then have a: "10 \<le> n" and b: "10 \<le> n div 10" by auto
  have c: "n div 10 div 10 = n div 100" by (simp add: div_mult2_eq)
  show ?thesis
    using digits_of_step [OF a] digits_of_step [OF b] c by simp
qed

lemma str_cents_eq:
  "str_cents r = digits_of (r div 100) @ ''.'' @ [digit_char (r div 10 mod 10), digit_char (r mod 10)]"
proof -
  consider "r < 10" | "10 \<le> r" "r < 100" | "100 \<le> r" by linarith
  then show ?thesis
  proof cases
    case 1
    then have "digits_of r = [digit_char r]" "digits_of (r div 100) = [digit_char 0]"
      by (simp_all add: digits_of_small)
    with 1 show ?thesis by (simp add: str_cents_def digit_char_def char_of_digit_codes)
  next
    case 2
    then have "digits_of r = [digit_char (r div 10), digit_char (r mod 10)]"
      "digits_of (r div 100) = [digit_char 0]"
      by (simp_all add: digits_of_step digits_of_small)
    with 2 show ?thesis by (simp add: str_cents_def digit_char_def char_of_digit_codes)
  next
    case 3
    have ne: "digits_of (r div 100) \<noteq> []" by (rule digits_of_nonempty)
    then have "0 < length (digits_of (r div 100))" by simp
    then show ?thesis
      using digits_of_two [OF 3] by (simp add: str_cents_def Let_def)
  qed
qed

lemma is_digit_digit_char: "k < 10 \<Longrightarrow> is_digit (digit_char k)"
proof -
  assume "k < 10"
  then have "k \<in> {0, 1, 2, 3, 4, 5, 6, 7, 8, 9}" by auto
  then show "is_digit (digit_char k)"
    by (auto simp: is_digit_def digit_char_def char_of_digit_codes)
qed

lemma digits_of_all_digits: "list_all is_digit (digits_of n)"
proof (induction n rule: digits_of.induct)
  case (1 n)
  show ?case
  proof (cases "n < 10")
    case True
    then show ?thesis by (simp add: digits_of_small is_digit_digit_char)
  next
    case False
    then show ?thesis using 1 by (simp add: digits_of_step is_digit_digit_char)
  qed
qed

lemma half_up_cents_floor:
  "int (half_up_cents c e) = \<lfloor>100 * (real c * 10 powi e) + 1 / 2\<rfloor>"
proof (cases "- 2 \<le> e")
  case True
  have "(10::real) powi (e + 2) = 10 ^ nat (e + 2)"
    using True by (simp add: power_int_def)
  moreover have "(10::real) powi (e + 2) = 10 powi e * 100"
    by (simp add: power_int_add)
  ultimately have eq: "100 * (real c * 10 powi e) = real (c * 10 ^ nat (e + 2))"
    by simp
  have "\<lfloor>real (c * 10 ^ nat (e + 2)) + 1 / 2\<rfloor> = int (c * 10 ^ nat (e + 2))"
    by linarith
  then show ?thesis using True unfolding eq by (simp add: half_up_cents_def)
next
  case False
  define k where "k = nat (- 2 - e)"
  define d :: nat where "d = 10 ^ k"
  have k: "0 < k" "e = - int k - 2" using False by (auto simp: k_def)
  have dpos: "0 < d" by (simp add: d_def)
  have even: "2 * (d div 2) = d"
    using k by (cases k) (auto simp: d_def)
  have ne: "nat (- e) = k + 2" using k by simp
  have "(10::real) powi e = inverse 10 ^ (k + 2)"
    using False ne by (simp add: power_int_def)
  then have p: "(10::real) powi e = 1 / (100 * real d)"
    by (simp add: d_def power_add field_simps)
  have "real (2 * (d div 2)) = real d" using even by simp
  then have h: "real (d div 2) = real d / 2" by simp
  have "100 * (real c * 10 powi e) + 1 / 2 = real (c + d div 2) / real d"
    using dpos by (simp add: p h field_simps)
  moreover have "\<lfloor>real (c + d div 2) / real d\<rfloor> = int ((c + d div 2) div d)"
    by (rule floor_divide_of_nat_eq)
  ultimately have "\<lfloor>100 * (real c * 10 powi e) + 1 / 2\<rfloor> = int ((c + d div 2) div d)"
    by simp
  then show ?thesis using False by (simp add: half_up_cents_def k_def d_def)
qed

lemma format_price_finite:
  assumes "py_str_checked price = Inr text"
    and "Decimal_of_str text = Some (Finite neg c e)"
    and "half_up_cents c e < 10 ^ 28"
  shows "format_price price = Inr ((if neg then ''-'' else '''') @ str_cents (half_up_cents c e))"
  using assms
  by (simp add: format_price_def format_price_try_def quantize_cents_def bind_result_def str_decimal_def)

lemma format_price_overflow:
  assumes "py_str_checked price = Inr text"
    and "Decimal_of_str text = Some (Finite neg c e)"
    and "\<not> half_up_cents c e < 10 ^ 28"
  shows "format_price price = Inl InvalidOperation"
  using assms
  by (simp add: format_price_def format_price_try_def quantize_cents_def bind_result_def str_decimal_def)

lemma digits_of_length_le: "0 < k \<Longrightarrow> n < 10 ^ k \<Longrightarrow> length (digits_of n) \<le> k"
proof (induction n arbitrary: k rule: digits_of.induct)
  case (1 n)
  show ?case
  proof (cases "n < 10")
    case True
    then show ?thesis using "1.prems" by (simp add: digits_of_small)
  next
    case False
    obtain j where k: "k = Suc j" using "1.prems" by (cases k) auto
    have "n div 10 < 10 ^ j" using "1.prems" k by (simp add: less_mult_imp_div_less mult.commute)
    moreover have "0 < j"
    proof (rule ccontr)
      assume "\<not> 0 < j"
      then have "n < 10" using "1.prems" k by simp
      with False show False by simp
    qed
    ultimately have "length (digits_of (n div 10)) \<le> j"
      using "1.IH" False by simp
    then show ?thesis using False k by (simp add: digits_of_step)
  qed
qed

lemma int_not_too_long:
  assumes "\<bar>i\<bar> < 10 ^ k" "0 < k" "k \<le> 4300"
  shows "\<not> int_too_long (PyInt i)"
proof -
  have "nat \<bar>i\<bar> < 10 ^ k" using assms(1) by (simp add: nat_less_iff)
  then have "length (digits_of (nat \<bar>i\<bar>)) \<le> k" using assms(2) by (intro digits_of_length_le)
  then show ?thesis using assms(3) by simp
qed

lemma int_too_long_small [simp]: "\<bar>i\<bar> < 10 ^ 26 \<Longrightarrow> int_too_long (PyInt i) = False"
  using int_not_too_long [of i 26] by simp

declare int_too_long.simps(1) [simp del]

lemma py_str_checked_str [simp]: "py_str_checked (PyStr s) = Inr s"
  by (simp add: py_str_checked_def py_str_def)

lemma py_str_checked_float [simp]: "py_str_checked (PyFloat r) = Inr r"
  by (simp add: py_str_checked_def py_str_def)

lemma py_str_checked_small_int [simp]:
  "\<bar>i\<bar> < 10 ^ 26 \<Longrightarrow> py_str_checked (PyInt i) = Inr (py_str (PyInt i))"
  by (simp add: py_str_checked_def)

lemma is_digit_facts:
  assumes "is_digit c"
  shows "\<not> is_space c" "c \<noteq> CHR ''_''" "lower_ascii c = c" "c \<noteq> CHR ''-''" "c \<noteq> CHR ''+''"
    "c \<noteq> CHR ''.''" "c \<noteq> CHR ''i''" "c \<noteq> CHR ''n''" "c \<noteq> CHR ''s''"
  using assms by (auto simp: is_digit_def is_space_def lower_ascii_def)

lemma digit_val_digit_char: "k < 10 \<Longrightarrow> digit_val (digit_char k) = k"
  by (simp add: digit_val_def digit_char_def)

lemma nat_of_digits_snoc: "nat_of_digits (ds @ [c]) = 10 * nat_of_digits ds + digit_val c"
  by (simp add: nat_of_digits_def)

lemma nat_of_digits_digits_of: "nat_of_digits (digits_of n) = n"
proof (induction n rule: digits_of.induct)
  case (1 n)
  show ?case
  proof (cases "n < 10")
    case True
    then show ?thesis by (simp add: digits_of_small nat_of_digits_def digit_val_digit_char)
  next
    case False
    then have "nat_of_digits (digits_of (n div 10)) = n div 10" using 1 by simp
    with False show ?thesis
      by (simp add: digits_of_step nat_of_digits_snoc digit_val_digit_char)
  qed
qed

lemma dropWhile_hd_id: "xs \<noteq> [] \<Longrightarrow> \<not> P (hd xs) \<Longrightarrow> dropWhile P xs = xs"
  by (cases xs) auto

lemma py_strip_id:
  assumes "s \<noteq> []" "\<not> is_space (hd s)" "\<not> is_space (last s)"
  shows "py_strip s = s"
proof -
  have a: "dropWhile is_space s = s" using assms by (simp add: dropWhile_hd_id)
  have "rev s \<noteq> []" using assms by simp
  moreover have "hd (rev s) = last s" using assms by (simp add: hd_rev)
  ultimately have "dropWhile is_space (rev s) = rev s"
    using assms by (simp add: dropWhile_hd_id)
  with a show ?thesis by (simp add: py_strip_def)
qed

lemma Decimal_of_str_digits:
  assumes "ds \<noteq> []" "list_all is_digit ds"
    and "length (digits_of (nat_of_digits ds)) \<le> 4300"
  shows "Decimal_of_str ds = Some (Finite False (nat_of_digits ds) 0)"
    and "Decimal_of_str (CHR ''-'' # ds) = Some (Finite True (nat_of_digits ds) 0)"
proof -
  obtain d t where ds: "ds = d # t" using assms by (cases ds) auto
  have d: "is_digit d" using assms ds by simp
  have all: "\<forall>c \<in> set ds. is_digit c" using assms by (simp add: list_all_iff)
  have last: "is_digit (last ds)" using assms all by simp
  have nsl: "\<not> is_space (last ds)" using last by (rule is_digit_facts)
  have nsd: "\<not> is_space d" using d by (rule is_digit_facts)
  have nsm: "\<not> is_space (CHR ''-'')" by (simp add: is_space_def)
  have strip1: "py_strip ds = ds"
    using nsl nsd ds by (intro py_strip_id) auto
  have strip2: "py_strip (CHR ''-'' # ds) = CHR ''-'' # ds"
    using nsl nsm assms by (intro py_strip_id) auto
  have filt: "filter (\<lambda>c. c \<noteq> CHR ''_'') ds = ds"
    using all by (auto simp: filter_id_conv is_digit_facts)
  have low: "map lower_ascii ds = ds"
    using all by (auto simp: map_idI is_digit_facts)
  have tw: "takeWhile is_digit ds = ds" "dropWhile is_digit ds = []"
    using all by auto
  have sp1: "split_sign ds = (False, ds)"
    using d ds by (simp add: is_digit_facts)
  have nm: "ds \<noteq> ''inf''" "ds \<noteq> ''infinity''" "take 3 ds \<noteq> ''nan''" "take 4 ds \<noteq> ''snan''"
    using d ds by (auto simp: is_digit_facts)
  have rng: "exponent_in_range (nat_of_digits ds) 0"
    using assms(3) by (simp add: exponent_in_range_def decimal_emax_def decimal_etiny_def)
  show "Decimal_of_str ds = Some (Finite False (nat_of_digits ds) 0)"
    using assms(1,2) nm rng
    by (simp add: Decimal_of_str_def strip1 filt sp1 low tw parse_exponent_def Let_def)
  show "Decimal_of_str (CHR ''-'' # ds) = Some (Finite True (nat_of_digits ds) 0)"
    using assms(1,2) nm rng
    by (simp add: Decimal_of_str_def strip2 filt low tw parse_exponent_def Let_def)
qed

lemma Decimal_of_str_int:
  assumes "\<not> int_too_long (PyInt i)"
  shows "Decimal_of_str (py_str (PyInt i)) = Some (Finite (i < 0) (nat \<bar>i\<bar>) 0)"
proof -
  have "length (digits_of (nat_of_digits (digits_of (nat \<bar>i\<bar>)))) \<le> 4300"
    using assms by (simp add: nat_of_digits_digits_of int_too_long.simps(1))
  from Decimal_of_str_digits [OF digits_of_nonempty digits_of_all_digits this]
  show ?thesis
    by (cases "i < 0") (simp_all add: py_str_def str_of_int_def nat_of_digits_digits_of)
qed

lemma py_str_checked_int:
  "\<not> int_too_long (PyInt i) \<Longrightarrow> py_str_checked (PyInt i) = Inr (py_str (PyInt i))"
  by (simp add: py_str_checked_def)

lemma format_price_int_ok:
  assumes "\<bar>i\<bar> < 10 ^ 26"
  shows "format_price (PyInt i) =
    Inr ((if i < 0 then ''-'' else '''') @ digits_of (nat \<bar>i\<bar>) @ ''.00'')"
proof -
  have n: "\<not> int_too_long (PyInt i)"
    using assms by (rule int_not_too_long) simp_all
  have "nat \<bar>i\<bar> < 10 ^ 26" using assms by (simp add: nat_less_iff)
  then have b: "half_up_cents (nat \<bar>i\<bar>) 0 < 10 ^ 28"
    by (simp add: half_up_cents_def)
  have c: "half_up_cents (nat \<bar>i\<bar>) 0 = nat \<bar>i\<bar> * 100"
    by (simp add: half_up_cents_def)
  show ?thesis
    using format_price_finite [OF py_str_checked_int [OF n] Decimal_of_str_int [OF n] b]
    by (simp add: c str_cents_eq digit_char_def char_of_digit_codes)
qed

lemma format_price_int_big:
  assumes "10 ^ 26 \<le> \<bar>i\<bar>" and "\<not> int_too_long (PyInt i)"
  shows "format_price (PyInt i) = Inl InvalidOperation"
proof -
  have "10 ^ 26 \<le> nat \<bar>i\<bar>" using assms(1) by (simp add: le_nat_iff)
  then have b: "\<not> half_up_cents (nat \<bar>i\<bar>) 0 < 10 ^ 28"
    by (simp add: half_up_cents_def)
  show ?thesis
    using format_price_overflow
      [OF py_str_checked_int [OF assms(2)] Decimal_of_str_int [OF assms(2)] b] .
qed

section \<open>Properties of price formatting\<close>

text \<open>
  C10: \<^verbatim>\<open>format_price\<close> is not total on strings. The string \<^verbatim>\<open>"abc"\<close> is not a
  decimal numeral; the conversion raises \<^verbatim>\<open>decimal.InvalidOperation\<close>, which the
  handler for \<^verbatim>\<open>ValueError\<close> and \<^verbatim>\<open>TypeError\<close> does not catch, so the call raises
  instead of returning the input as a string.
\<close>

theorem format_price_raises_on_abc:
  "Decimal_of_str ''abc'' = None
   \<and> format_price (PyStr ''abc'') = Inl InvalidOperation
   \<and> format_price (PyStr ''abc'') \<noteq> Inr (py_str (PyStr ''abc''))
   \<and> InvalidOperation \<noteq> ValueError \<and> InvalidOperation \<noteq> TypeError"
  by code_simp

theorem format_price_raises_on_abc_witness:
  "\<exists>s. format_price (PyStr s) = Inl InvalidOperation"
  using format_price_raises_on_abc by blast

text \<open>
  C4: price formatting. The claim holds wherever the decimal module can hold the number
  and the rounded amount fits the 28 digits of its context: for every price whose text
  \<^verbatim>\<open>str(price)\<close> the constructor \<^verbatim>\<open>Decimal\<close> reads as a finite number and whose
  amount in cents, rounded half-up, is below \<open>10 ^ 28\<close>, \<^verbatim>\<open>format_price\<close> returns the
  sign, the digits of the whole part, a point and exactly two digits, and the amount in
  cents is the half-up rounding \<open>\<lfloor>100 * v + 1 / 2\<rfloor>\<close> of the magnitude \<open>v\<close> of the
  input. Every int of magnitude below \<open>10 ^ 26\<close> is such a price
  (\<open>format_price_int_ok\<close>).
\<close>

theorem format_price_two_decimals_half_up:
  assumes "py_str_checked price = Inr text"
    and "Decimal_of_str text = Some (Finite neg c e)"
    and "half_up_cents c e < 10 ^ 28"
  shows "format_price price =
           Inr ((if neg then ''-'' else '''') @ digits_of (half_up_cents c e div 100) @ ''.'' @
                [digit_char (half_up_cents c e div 10 mod 10), digit_char (half_up_cents c e mod 10)])
         \<and> list_all is_digit (digits_of (half_up_cents c e div 100))
         \<and> is_digit (digit_char (half_up_cents c e div 10 mod 10))
         \<and> is_digit (digit_char (half_up_cents c e mod 10))
         \<and> int (half_up_cents c e) = \<lfloor>100 * (real c * 10 powi e) + 1 / 2\<rfloor>"
proof -
  have "format_price price = Inr ((if neg then ''-'' else '''') @ str_cents (half_up_cents c e))"
    using assms by (rule format_price_finite)
  then have "format_price price =
      Inr ((if neg then ''-'' else '''') @ digits_of (half_up_cents c e div 100) @ ''.'' @
           [digit_char (half_up_cents c e div 10 mod 10), digit_char (half_up_cents c e mod 10)])"
    by (simp only: str_cents_eq)
  moreover have "list_all is_digit (digits_of (half_up_cents c e div 100))"
    by (rule digits_of_all_digits)
  moreover have "is_digit (digit_char (half_up_cents c e div 10 mod 10))"
    by (rule is_digit_digit_char) simp
  moreover have "is_digit (digit_char (half_up_cents c e mod 10))"
    by (rule is_digit_digit_char) simp
  moreover have "int (half_up_cents c e) = \<lfloor>100 * (real c * 10 powi e) + 1 / 2\<rfloor>"
    by (rule half_up_cents_floor)
  ultimately show ?thesis by blast
qed

theorem format_price_two_decimals_half_up_witness:
  "format_price (PyFloat ''2.005'') = Inr ''2.01'' \<and> format_price (PyFloat ''2.004'') = Inr ''2.00''
   \<and> format_price (PyStr ''5'') = Inr ''5.00''"
proof -
  have s5: "py_str_checked (PyFloat ''2.005'') = Inr ''2.005''"
    and s4: "py_str_checked (PyFloat ''2.004'') = Inr ''2.004''"
    and s: "py_str_checked (PyStr ''5'') = Inr ''5''"
    by (simp_all add: py_str_checked_def py_str_def)
  have p5: "Decimal_of_str ''2.005'' = Some (Finite False 2005 (- 3))"
    by code_simp
  have p4: "Decimal_of_str ''2.004'' = Some (Finite False 2004 (- 3))"
    by code_simp
  have p: "Decimal_of_str ''5'' = Some (Finite False 5 0)"
    by code_simp
  have h5: "half_up_cents 2005 (- 3) = 201" and h4: "half_up_cents 2004 (- 3) = 200"
    and h: "half_up_cents 5 0 = 500"
    by (simp_all add: half_up_cents_def)
  have b5: "half_up_cents 2005 (- 3) < 10 ^ 28" and b4: "half_up_cents 2004 (- 3) < 10 ^ 28"
    and b: "half_up_cents 5 0 < 10 ^ 28"
    by (simp_all add: h5 h4 h)
  show ?thesis
    using format_price_two_decimals_half_up [OF s5 p5 b5]
      format_price_two_decimals_half_up [OF s4 p4 b4]
      format_price_two_decimals_half_up [OF s p b]
    by (simp add: h5 h4 h digits_of_small digit_char_def char_of_digit_codes)
qed

text \<open>
  The int \<open>10 ^ 26\<close> needs 29 digits once it is written with two decimals: the call
  raises.
\<close>

theorem format_price_large_int_raises:
  "format_price (PyInt (10 ^ 26)) = Inl InvalidOperation
   \<and> (\<forall>s. format_price (PyInt (10 ^ 26)) \<noteq> Inr s)"
proof -
  have "\<not> int_too_long (PyInt (10 ^ 26))"
    by (rule int_not_too_long [of _ 27]) simp_all
  then have "format_price (PyInt (10 ^ 26)) = Inl InvalidOperation"
    by (intro format_price_int_big) simp_all
  then show ?thesis by simp
qed

text \<open>
  Two inputs at the edges of the hypotheses: a zero whose exponent the constructor cannot
  hold, and a number below \<open>10 ^ 26\<close> whose rounding carries into a 29th digit. Both
  calls raise \<^verbatim>\<open>InvalidOperation\<close>.
\<close>

lemma Decimal_of_str_exponent_too_large: "Decimal_of_str ''0e1000000000000000000'' = None"
  by (simp add: Decimal_of_str_def py_strip_def is_space_def is_digit_def lower_ascii_def
      parse_exponent_def nat_of_digits_def digit_val_def exponent_in_range_def decimal_emax_def
      decimal_etiny_def digits_of_small)

lemma format_price_exponent_too_large:
  "format_price (PyStr ''0e1000000000000000000'') = Inl InvalidOperation"
  by (simp add: format_price_def format_price_try_def py_str_checked_def py_str_def
      Decimal_of_str_exponent_too_large)

section \<open>Properties of band parsing\<close>

lemma coerce_price_dict:
  assumes "''price'' \<in> set (map fst d)"
  shows "\<exists>d'. coerce_price float_of (PyDict d) = PyDict d'
           \<and> map fst d' = map fst d
           \<and> (\<forall>k. map_of d' k =
                 (if k = ''price'' then map_option (price_as_float float_of) (map_of d k) else map_of d k))"
proof -
  obtain p where p: "map_of d ''price'' = Some p"
    using assms by (metis map_of_eq_None_iff not_Some_eq set_map)
  show ?thesis
  proof (cases "\<exists>s f. p = PyStr s \<and> float_of s = Some f")
    case True
    then obtain s f where sf: "p = PyStr s" "float_of s = Some f" by blast
    have "coerce_price float_of (PyDict d) = PyDict (AList.update ''price'' (PyFloat f) d)"
      using p sf by (simp add: coerce_price_def)
    moreover have "map fst (AList.update ''price'' (PyFloat f) d) = map fst d"
      using assms by (simp add: update_keys)
    moreover have "\<forall>k. map_of (AList.update ''price'' (PyFloat f) d) k =
        (if k = ''price'' then map_option (price_as_float float_of) (map_of d k) else map_of d k)"
      using p sf by (simp add: update_conv price_as_float_def)
    ultimately show ?thesis by blast
  next
    case False
    then have a: "coerce_price float_of (PyDict d) = PyDict d"
      using p by (auto simp: coerce_price_def split: pyval.splits option.splits)
    have b: "price_as_float float_of p = p"
      using False by (auto simp: price_as_float_def split: pyval.splits option.splits)
    have "\<forall>k. map_of d k =
        (if k = ''price'' then map_option (price_as_float float_of) (map_of d k) else map_of d k)"
      using p b by simp
    with a show ?thesis by blast
  qed
qed

lemma validate_band_structure_dict:
  "validate_band_structure b \<Longrightarrow> \<exists>d. b = PyDict d \<and> ''price'' \<in> set (map fst d)"
  by (auto simp: validate_band_structure_def split: pyval.splits)

text \<open>
  C6: band parsing is all-or-nothing per list. \<^verbatim>\<open>parse_bands\<close> returns the empty list
  when the text does not decode, when it decodes to something that is not a list, and
  when one element of the list fails \<^verbatim>\<open>validate_band_structure\<close>; otherwise it returns
  a list of the same length whose bands keep their keys and values, except that a price
  given as a string is replaced by its float, and kept when the conversion fails.
\<close>

theorem parse_bands_all_or_nothing:
  "(json_loads s = None \<longrightarrow> parse_bands json_loads float_of s = [])
   \<and> (\<forall>data. json_loads s = Some data \<longrightarrow> (\<forall>xs. data \<noteq> PyList xs) \<longrightarrow>
          parse_bands json_loads float_of s = [])
   \<and> (\<forall>xs. json_loads s = Some (PyList xs) \<longrightarrow> \<not> list_all validate_band_structure xs \<longrightarrow>
          parse_bands json_loads float_of s = [])
   \<and> (\<forall>xs. json_loads s = Some (PyList xs) \<longrightarrow> list_all validate_band_structure xs \<longrightarrow>
          length (parse_bands json_loads float_of s) = length xs
          \<and> (\<forall>i < length xs. \<exists>d d'.
                xs ! i = PyDict d \<and> parse_bands json_loads float_of s ! i = PyDict d'
                \<and> map fst d' = map fst d
                \<and> (\<forall>k. map_of d' k =
                      (if k = ''price'' then map_option (price_as_float float_of) (map_of d k)
                       else map_of d k))))"
proof (intro conjI allI impI)
  assume "json_loads s = None"
  then show "parse_bands json_loads float_of s = []" by (simp add: parse_bands_def)
next
  fix data assume "json_loads s = Some data" "\<forall>xs. data \<noteq> PyList xs"
  then show "parse_bands json_loads float_of s = []"
    by (cases data) (simp_all add: parse_bands_def)
next
  fix xs assume "json_loads s = Some (PyList xs)" "\<not> list_all validate_band_structure xs"
  then show "parse_bands json_loads float_of s = []" by (simp add: parse_bands_def)
next
  fix xs assume "json_loads s = Some (PyList xs)" "list_all validate_band_structure xs"
  then show "length (parse_bands json_loads float_of s) = length xs"
    by (simp add: parse_bands_def)
next
  fix xs i
  assume h: "json_loads s = Some (PyList xs)" "list_all validate_band_structure xs" "i < length xs"
  then have e: "parse_bands json_loads float_of s ! i = coerce_price float_of (xs ! i)"
    by (simp add: parse_bands_def)
  have "validate_band_structure (xs ! i)"
    using h by (simp add: list_all_length)
  then obtain d where d: "xs ! i = PyDict d" "''price'' \<in> set (map fst d)"
    using validate_band_structure_dict by blast
  from coerce_price_dict [OF d(2), of float_of] d(1) e
  show "\<exists>d d'. xs ! i = PyDict d \<and> parse_bands json_loads float_of s ! i = PyDict d'
          \<and> map fst d' = map fst d
          \<and> (\<forall>k. map_of d' k =
                (if k = ''price'' then map_option (price_as_float float_of) (map_of d k)
                 else map_of d k))"
    by auto
qed

theorem parse_bands_all_or_nothing_witness:
  "parse_bands example_loads example_float ''not json'' = []
   \<and> parse_bands example_loads example_float ''{\"min\": 1}'' = []
   \<and> parse_bands example_loads example_float ''[{\"min\": 1, \"max\": 10, \"price\": 5}, 7]'' = []
   \<and> length (parse_bands example_loads example_float ''[{\"min\": 1, \"max\": 10, \"price\": \"5.00\"}]'') = 1
   \<and> parse_bands example_loads example_float ''[{\"min\": 1, \"max\": 10, \"price\": \"5.00\"}]''
       = [PyDict [(''min'', PyInt 1), (''max'', PyInt 10), (''price'', PyFloat ''5.0'')]]"
proof -
  have a: "example_loads ''not json'' = None" by (simp add: example_loads_def)
  have b: "example_loads ''{\"min\": 1}'' = Some (PyDict [(''min'', PyInt 1)])"
    by (simp add: example_loads_def)
  have c: "example_loads ''[{\"min\": 1, \"max\": 10, \"price\": 5}, 7]'' =
      Some (PyList [PyDict [(''min'', PyInt 1), (''max'', PyInt 10), (''price'', PyInt 5)], PyInt 7])"
    by (simp add: example_loads_def)
  have c': "\<not> list_all validate_band_structure
      [PyDict [(''min'', PyInt 1), (''max'', PyInt 10), (''price'', PyInt 5)], PyInt 7]"
    by (simp add: validate_band_structure_def)
  have d: "example_loads ''[{\"min\": 1, \"max\": 10, \"price\": \"5.00\"}]'' =
      Some (PyList [PyDict [(''min'', PyInt 1), (''max'', PyInt 10), (''price'', PyStr ''5.00'')]])"
    by (simp add: example_loads_def)
  have d': "list_all validate_band_structure
      [PyDict [(''min'', PyInt 1), (''max'', PyInt 10), (''price'', PyStr ''5.00'')]]"
    by (simp add: validate_band_structure_def)
  have e: "parse_bands example_loads example_float ''[{\"min\": 1, \"max\": 10, \"price\": \"5.00\"}]''
       = [PyDict [(''min'', PyInt 1), (''max'', PyInt 10), (''price'', PyFloat ''5.0'')]]"
    by (simp add: parse_bands_def d validate_band_structure_def coerce_price_def example_float_def)
  show ?thesis
    using parse_bands_all_or_nothing [of example_loads "''not json''" example_float]
      parse_bands_all_or_nothing [of example_loads "''{\"min\": 1}''" example_float]
      parse_bands_all_or_nothing [of example_loads "''[{\"min\": 1, \"max\": 10, \"price\": 5}, 7]''" example_float]
      parse_bands_all_or_nothing [of example_loads "''[{\"min\": 1, \"max\": 10, \"price\": \"5.00\"}]''" example_float]
      a b c c' d d' e
    by simp
qed


section \<open>Properties of the label list\<close>

lemma set_order_list_all:
  "set_order set_iter \<Longrightarrow> list_all P (set_iter xs) = list_all P xs"
  by (simp add: set_order_def list_all_iff)

lemma set_order_sort:
  assumes "set_order set_iter"
  shows "sort (set_iter xs) = sort (remdups xs)"
proof -
  have "distinct (set_iter xs)" "set (set_iter xs) = set xs"
    using assms by (simp_all add: set_order_def)
  then have "sorted (sort (set_iter xs))" "distinct (sort (set_iter xs))"
    "set (sort (set_iter xs)) = set (sort (remdups xs))"
    by simp_all
  moreover have "sorted (sort (remdups xs))" "distinct (sort (remdups xs))"
    by simp_all
  ultimately show ?thesis
    by (metis sorted_distinct_set_unique)
qed

lemma label_key_or_zero:
  "label_key x \<noteq> None \<Longrightarrow> label_key x = Some (key_or_zero x)"
  by (auto simp: key_or_zero_def)

text \<open>
  C5: label ordering. When the labels of both lists can be computed,
  \<^verbatim>\<open>collect_unique_band_labels\<close> returns each of them once. If the text before the
  first dash of every label is an integer, the result is ascending in that integer;
  if it is not for some label, the result is the labels in lexicographic order.
\<close>

theorem collect_unique_band_labels_ordering:
  assumes "set_order set_iter"
    and "map_result band_label (or_empty trade_bands @ or_empty endc_bands) = Inr ls"
  shows "\<exists>out. collect_unique_band_labels set_iter trade_bands endc_bands = Inr out
           \<and> set out = set ls \<and> distinct out
           \<and> (list_all (\<lambda>x. label_key x \<noteq> None) ls \<longrightarrow>
                sorted (map key_or_zero out) \<and> list_all (\<lambda>x. label_key x = Some (key_or_zero x)) out)
           \<and> (\<not> list_all (\<lambda>x. label_key x \<noteq> None) ls \<longrightarrow>
                sorted out \<and> out = sort (remdups ls))"
proof (cases "list_all (\<lambda>x. label_key x \<noteq> None) ls")
  case True
  let ?out = "sort_key key_or_zero (set_iter ls)"
  have d: "distinct (set_iter ls)" "set (set_iter ls) = set ls"
    using assms(1) by (simp_all add: set_order_def)
  have c: "collect_unique_band_labels set_iter trade_bands endc_bands = Inr ?out"
    using assms True by (simp add: collect_unique_band_labels_def set_order_list_all)
  have "list_all (\<lambda>x. label_key x = Some (key_or_zero x)) ?out"
    using True d by (auto simp: list_all_iff label_key_or_zero)
  moreover have "sorted (map key_or_zero ?out)" by (rule sorted_sort_key)
  moreover have "set ?out = set ls" "distinct ?out" using d by simp_all
  ultimately show ?thesis using c True by blast
next
  case False
  let ?out = "sort (set_iter ls)"
  have d: "distinct (set_iter ls)" "set (set_iter ls) = set ls"
    using assms(1) by (simp_all add: set_order_def)
  have c: "collect_unique_band_labels set_iter trade_bands endc_bands = Inr ?out"
    using assms False by (simp add: collect_unique_band_labels_def set_order_list_all)
  have "sorted ?out" "?out = sort (remdups ls)"
    using assms(1) by (simp_all add: set_order_sort)
  moreover have "set ?out = set ls" "distinct ?out" using d by simp_all
  ultimately show ?thesis using c False by blast
qed

text \<open>
  Both orderings are reached: with the labels \<^verbatim>\<open>10-20\<close> and \<^verbatim>\<open>2-5\<close> the integer order
  puts \<^verbatim>\<open>2-5\<close> first; once a label \<^verbatim>\<open>x-1\<close> joins them the order is that of the strings,
  where \<^verbatim>\<open>10-20\<close> is first.
\<close>

theorem collect_unique_band_labels_ordering_witness:
  "collect_unique_band_labels remdups
     (Some [make_band (PyInt 10) (PyInt 20) (PyInt 1), make_band (PyInt 2) (PyInt 5) (PyInt 1)])
     (Some [make_band (PyInt 2) (PyInt 5) (PyInt 3)]) = Inr [''2-5'', ''10-20'']
   \<and> map key_or_zero [''2-5'', ''10-20''] = [2, 10]
   \<and> collect_unique_band_labels remdups
     (Some [make_band (PyInt 10) (PyInt 20) (PyInt 1), make_band (PyInt 2) (PyInt 5) (PyInt 1)])
     (Some [make_band (PyStr ''x'') (PyInt 1) (PyInt 3)]) = Inr [''10-20'', ''2-5'', ''x-1'']
   \<and> label_key ''x-1'' = None"
proof -
  have o: "set_order remdups" by (simp add: set_order_def)
  have l1: "map_result band_label
      (or_empty (Some [make_band (PyInt 10) (PyInt 20) (PyInt 1), make_band (PyInt 2) (PyInt 5) (PyInt 1)])
       @ or_empty (Some [make_band (PyInt 2) (PyInt 5) (PyInt 3)])) = Inr [''10-20'', ''2-5'', ''2-5'']"
    by code_simp
  have l2: "map_result band_label
      (or_empty (Some [make_band (PyInt 10) (PyInt 20) (PyInt 1), make_band (PyInt 2) (PyInt 5) (PyInt 1)])
       @ or_empty (Some [make_band (PyStr ''x'') (PyInt 1) (PyInt 3)])) = Inr [''10-20'', ''2-5'', ''x-1'']"
    by code_simp
  have k: "map key_or_zero [''2-5'', ''10-20''] = [2, 10]" "label_key ''x-1'' = None"
    "list_all (\<lambda>x. label_key x \<noteq> None) [''10-20'', ''2-5'', ''2-5'']"
    "\<not> list_all (\<lambda>x. label_key x \<noteq> None) [''10-20'', ''2-5'', ''x-1'']"
    by code_simp+
  have e1: "collect_unique_band_labels remdups
     (Some [make_band (PyInt 10) (PyInt 20) (PyInt 1), make_band (PyInt 2) (PyInt 5) (PyInt 1)])
     (Some [make_band (PyInt 2) (PyInt 5) (PyInt 3)]) = Inr [''2-5'', ''10-20'']"
    by code_simp
  have e2: "collect_unique_band_labels remdups
     (Some [make_band (PyInt 10) (PyInt 20) (PyInt 1), make_band (PyInt 2) (PyInt 5) (PyInt 1)])
     (Some [make_band (PyStr ''x'') (PyInt 1) (PyInt 3)]) = Inr [''10-20'', ''2-5'', ''x-1'']"
    by code_simp
  show ?thesis
    using collect_unique_band_labels_ordering [OF o l1] collect_unique_band_labels_ordering [OF o l2]
      k e1 e2
    by simp
qed


text \<open>
  What \<^verbatim>\<open>int\<close> strips is the white space of the ASCII range and the two no-break
  characters; the separators U+001C to U+001F are not part of it, so a label that begins
  with one has no key. A numeral of more than 4300 digits has none either.
\<close>

lemma label_key_separator_examples:
  "label_key (char_of (28 :: nat) # ''5-9'') = None"
  "label_key '' 5-9'' = Some 5"
  "label_key (char_of (160 :: nat) # ''5-9'') = Some 5"
  "label_key ''1_0-9'' = Some 10"
  by code_simp+

lemma py_int_digit_limit:
  "4300 < length (filter is_digit (snd (split_sign (int_strip s)))) \<Longrightarrow> py_int s = None"
  by (cases "split_sign (int_strip s)") (simp add: py_int_def)

section \<open>Properties of variant synthesis\<close>

lemma map_result_Inr_iff:
  "map_result f xs = Inr ys \<longleftrightarrow> list_all2 (\<lambda>x y. f x = Inr y) xs ys"
proof (induction xs arbitrary: ys)
  case Nil
  then show ?case by auto
next
  case (Cons x xs)
  show ?case
  proof (cases "f x")
    case (Inl e)
    then show ?thesis by (auto simp: list_all2_Cons1)
  next
    case (Inr y)
    then show ?thesis
      using Cons.IH by (cases "map_result f xs") (auto simp: list_all2_Cons1)
  qed
qed

lemma map_result_append:
  "map_result f (xs @ ys) = Inr zs \<longleftrightarrow>
     (\<exists>as bs. map_result f xs = Inr as \<and> map_result f ys = Inr bs \<and> zs = as @ bs)"
proof
  assume "map_result f (xs @ ys) = Inr zs"
  then obtain us vs where "zs = us @ vs" "list_all2 (\<lambda>x y. f x = Inr y) xs us"
    "list_all2 (\<lambda>x y. f x = Inr y) ys vs"
    by (auto simp: map_result_Inr_iff list_all2_append1)
  then show "\<exists>as bs. map_result f xs = Inr as \<and> map_result f ys = Inr bs \<and> zs = as @ bs"
    by (auto simp: map_result_Inr_iff)
next
  assume "\<exists>as bs. map_result f xs = Inr as \<and> map_result f ys = Inr bs \<and> zs = as @ bs"
  then obtain as bs where h: "list_all2 (\<lambda>x y. f x = Inr y) xs as"
    "list_all2 (\<lambda>x y. f x = Inr y) ys bs" "zs = as @ bs"
    by (auto simp: map_result_Inr_iff)
  then have "list_all2 (\<lambda>x y. f x = Inr y) (xs @ ys) (as @ bs)"
    by (simp add: list_all2_appendI)
  then show "map_result f (xs @ ys) = Inr zs"
    using h by (simp add: map_result_Inr_iff)
qed

lemma map_result_set:
  assumes "map_result f xs = Inr ys"
  shows "set ys = {y. \<exists>x \<in> set xs. f x = Inr y}"
proof -
  have l: "list_all2 (\<lambda>x y. f x = Inr y) xs ys" using assms by (simp add: map_result_Inr_iff)
  show ?thesis
  proof (intro set_eqI iffI)
    fix y assume "y \<in> set ys"
    then obtain i where "i < length ys" "ys ! i = y" by (auto simp: in_set_conv_nth)
    then have "f (xs ! i) = Inr y" "xs ! i \<in> set xs"
      using l by (auto simp: list_all2_conv_all_nth)
    then show "y \<in> {y. \<exists>x \<in> set xs. f x = Inr y}" by blast
  next
    fix y assume "y \<in> {y. \<exists>x \<in> set xs. f x = Inr y}"
    then obtain x where "x \<in> set xs" "f x = Inr y" by blast
    then obtain i where "i < length xs" "xs ! i = x" by (auto simp: in_set_conv_nth)
    then have "ys ! i = y" "i < length ys"
      using l \<open>f x = Inr y\<close> by (auto simp: list_all2_conv_all_nth)
    then show "y \<in> set ys" by auto
  qed
qed

lemma band_label_truthy: "band_label b = Inr l \<Longrightarrow> py_truthy b"
  by (auto simp: band_label_def py_truthy_def bind_result_Inr_iff split: pyval.splits option.splits)

lemma find_band_found:
  assumes "map_result band_label bs = Inr ls" "l \<in> set ls"
  shows "\<exists>b. find_band bs l = Inr (Some b) \<and> band_label b = Inr l \<and> b \<in> set bs"
  using assms
proof (induction bs arbitrary: ls)
  case Nil
  then show ?case by simp
next
  case (Cons b bs)
  from Cons.prems(1) obtain l0 ls0 where
    h: "band_label b = Inr l0" "map_result band_label bs = Inr ls0" "ls = l0 # ls0"
    by (auto simp: bind_result_Inr_iff)
  show ?case
  proof (cases "l0 = l")
    case True
    then show ?thesis using h by simp
  next
    case False
    then have "l \<in> set ls0" using Cons.prems(2) h by simp
    from Cons.IH [OF h(2) this] False h show ?thesis by auto
  qed
qed

lemma find_band_missing:
  assumes "map_result band_label bs = Inr ls" "l \<notin> set ls"
  shows "find_band bs l = Inr None"
  using assms
proof (induction bs arbitrary: ls)
  case Nil
  then show ?case by simp
next
  case (Cons b bs)
  from Cons.prems(1) obtain l0 ls0 where
    h: "band_label b = Inr l0" "map_result band_label bs = Inr ls0" "ls = l0 # ls0"
    by (auto simp: bind_result_Inr_iff)
  then have "l0 \<noteq> l" "l \<notin> set ls0" using Cons.prems(2) by auto
  with Cons.IH [OF h(2)] h show ?case by simp
qed

lemma build_variant_for_band_tuple:
  assumes "build_variant_for_band label band ct sku w colour = Inr v"
  shows "option_tuple v = shape_tuple colour label ct"
  using assms
  by (auto simp: build_variant_for_band_def bind_result_Inr_iff option_tuple_def shape_tuple_def
      split: option.splits)

lemma variant_if_band_tuples:
  assumes "variant_if_band found label ct sku w colour = Inr vs"
    and "found = None \<or> (\<exists>b. found = Some b \<and> py_truthy b)"
  shows "option_tuple ` set vs = (if found = None then {} else {shape_tuple colour label ct})"
  using assms
  by (auto simp: variant_if_band_def bind_result_Inr_iff dest!: build_variant_for_band_tuple
      split: option.splits)

lemma variants_for_label_tuples:
  assumes "map_result band_label tb = Inr tls" "map_result band_label eb = Inr els"
    and "variants_for_label tb eb sku w colour l = Inr vs"
  shows "option_tuple ` set vs =
    (if l \<in> set tls then {shape_tuple colour l ''Trade''} else {}) \<union>
    (if l \<in> set els then {shape_tuple colour l ''End Customer''} else {})"
proof -
  obtain t_band e_band ts es where
    f: "find_band tb l = Inr t_band" "find_band eb l = Inr e_band"
    and v: "variant_if_band t_band l ''Trade'' sku w colour = Inr ts"
      "variant_if_band e_band l ''End Customer'' sku w colour = Inr es"
    and vs: "vs = ts @ es"
    using assms(3) by (auto simp: variants_for_label_def bind_result_Inr_iff)
  have t: "(t_band = None \<longleftrightarrow> l \<notin> set tls) \<and> (t_band = None \<or> (\<exists>b. t_band = Some b \<and> py_truthy b))"
    using find_band_found [OF assms(1), of l] find_band_missing [OF assms(1), of l] f(1)
    by (cases "l \<in> set tls") (auto dest: band_label_truthy)
  have e: "(e_band = None \<longleftrightarrow> l \<notin> set els) \<and> (e_band = None \<or> (\<exists>b. e_band = Some b \<and> py_truthy b))"
    using find_band_found [OF assms(2), of l] find_band_missing [OF assms(2), of l] f(2)
    by (cases "l \<in> set els") (auto dest: band_label_truthy)
  have "option_tuple ` set ts = (if t_band = None then {} else {shape_tuple colour l ''Trade''})"
    using t by (intro variant_if_band_tuples [OF v(1)]) blast
  then have "option_tuple ` set ts = (if l \<in> set tls then {shape_tuple colour l ''Trade''} else {})"
    using t by simp
  moreover
  have "option_tuple ` set es = (if e_band = None then {} else {shape_tuple colour l ''End Customer''})"
    using e by (intro variant_if_band_tuples [OF v(2)]) blast
  then have "option_tuple ` set es = (if l \<in> set els then {shape_tuple colour l ''End Customer''} else {})"
    using e by simp
  ultimately show ?thesis by (simp add: vs image_Un)
qed

lemma labels_loop_tuples:
  assumes "map_result band_label tb = Inr tls" "map_result band_label eb = Inr els"
    and "map_result (variants_for_label tb eb sku w colour) labels = Inr vss"
  shows "option_tuple ` set (concat vss) =
    (\<lambda>l. shape_tuple colour l ''Trade'') ` (set labels \<inter> set tls) \<union>
    (\<lambda>l. shape_tuple colour l ''End Customer'') ` (set labels \<inter> set els)"
  using assms(3)
proof (induction labels arbitrary: vss)
  case Nil
  then show ?case by simp
next
  case (Cons l labels)
  from Cons.prems obtain vs rest where
    h: "variants_for_label tb eb sku w colour l = Inr vs"
      "map_result (variants_for_label tb eb sku w colour) labels = Inr rest" "vss = vs # rest"
    by (auto simp: bind_result_Inr_iff)
  show ?case
    using variants_for_label_tuples [OF assms(1,2) h(1)] Cons.IH [OF h(2)] h(3)
    by (auto simp: image_Un)
qed

lemma labels_loop_all_tuples:
  assumes "map_result band_label tb = Inr tls" "map_result band_label eb = Inr els"
    and "concat_result (map_result (variants_for_label tb eb sku w colour) labels) = Inr vs"
    and "set labels = set tls \<union> set els"
  shows "option_tuple ` set vs =
    (\<lambda>l. shape_tuple colour l ''Trade'') ` set tls \<union>
    (\<lambda>l. shape_tuple colour l ''End Customer'') ` set els"
proof -
  obtain vss where "map_result (variants_for_label tb eb sku w colour) labels = Inr vss" "vs = concat vss"
    using assms(3) by (auto simp: concat_result_def bind_result_Inr_iff)
  then show ?thesis
    using labels_loop_tuples [OF assms(1,2), of sku w colour labels vss] assms(4)
    by (simp add: Int_absorb1 Int_absorb2 inf.absorb_iff2 sup.absorb_iff2 Int_Un_distrib Un_Int_eq)
qed

lemma colours_loop_tuples:
  assumes "map_result band_label tb = Inr tls" "map_result band_label eb = Inr els"
    and "set labels = set tls \<union> set els"
    and "map_result (\<lambda>colour. concat_result (map_result
           (variants_for_label tb eb (sku_of colour) w (Some colour)) labels)) cs = Inr vss"
  shows "option_tuple ` set (concat vss) =
    (\<Union>c \<in> set cs. (\<lambda>l. shape_tuple (Some c) l ''Trade'') ` set tls \<union>
                     (\<lambda>l. shape_tuple (Some c) l ''End Customer'') ` set els)"
  using assms(4)
proof (induction cs arbitrary: vss)
  case Nil
  then show ?case by simp
next
  case (Cons c cs)
  from Cons.prems obtain vs rest where
    h: "concat_result (map_result (variants_for_label tb eb (sku_of c) w (Some c)) labels) = Inr vs"
      "map_result (\<lambda>colour. concat_result (map_result
           (variants_for_label tb eb (sku_of colour) w (Some colour)) labels)) cs = Inr rest"
      "vss = vs # rest"
    by (auto simp: bind_result_Inr_iff)
  show ?case
    using labels_loop_all_tuples [OF assms(1,2) h(1) assms(3)] Cons.IH [OF h(2)] h(3)
    by (simp add: image_Un)
qed

lemma collect_unique_band_labels_set:
  assumes "set_order set_iter"
    and "collect_unique_band_labels set_iter trade_bands endc_bands = Inr labels"
  shows "\<exists>tls els. map_result band_label (or_empty trade_bands) = Inr tls
           \<and> map_result band_label (or_empty endc_bands) = Inr els
           \<and> set labels = set tls \<union> set els"
proof -
  from assms(2) have "\<exists>ls. map_result band_label (or_empty trade_bands @ or_empty endc_bands) = Inr ls
      \<and> (if list_all (\<lambda>x. label_key x \<noteq> None) (set_iter ls)
          then Inr (sort_key key_or_zero (set_iter ls))
          else Inr (sort (set_iter ls))) = (Inr labels :: string list result)"
    by (simp add: collect_unique_band_labels_def bind_result_Inr_iff Let_def)
  then obtain ls where ls: "map_result band_label (or_empty trade_bands @ or_empty endc_bands) = Inr ls"
    and r: "(if list_all (\<lambda>x. label_key x \<noteq> None) (set_iter ls)
          then Inr (sort_key key_or_zero (set_iter ls))
          else Inr (sort (set_iter ls))) = (Inr labels :: string list result)"
    by (elim exE conjE)
  have out: "set labels = set (set_iter ls)"
  proof (cases "list_all (\<lambda>x. label_key x \<noteq> None) (set_iter ls)")
    case True
    with r have "labels = sort_key key_or_zero (set_iter ls)" by simp
    then show ?thesis by simp
  next
    case False
    with r have "labels = sort (set_iter ls)" by simp
    then show ?thesis by simp
  qed
  from ls obtain tls els where s: "map_result band_label (or_empty trade_bands) = Inr tls"
    "map_result band_label (or_empty endc_bands) = Inr els" "ls = tls @ els"
    unfolding map_result_append by (elim exE conjE)
  have "set (set_iter ls) = set ls" using assms(1) by (simp add: set_order_def)
  then have "set labels = set tls \<union> set els" using out s(3) by simp
  with s show ?thesis by (intro exI conjI)
qed

lemma band_label_make_band [simp]:
  "\<not> int_too_long mn \<Longrightarrow> \<not> int_too_long mx \<Longrightarrow>
   band_label (make_band mn mx p) = Inr (py_str mn @ ''-'' @ py_str mx)"
  by (simp add: band_label_def make_band_def py_str_checked_def)

lemma band_price_make_band [simp]: "band_price (make_band mn mx p) = Inr p"
  by (simp add: band_price_def make_band_def)

lemma py_truthy_make_band [simp]: "py_truthy (make_band mn mx p)"
  by (simp add: py_truthy_def make_band_def)

lemma py_str_examples:
  "py_str (PyInt 1) = ''1''" "py_str (PyInt 5) = ''5''" "py_str (PyInt 10) = ''10''"
  "py_str (PyInt 7) = ''7''"
  by code_simp+

lemma format_price_eval:
  assumes "py_str_checked p = Inr text"
    and "Decimal_of_str text = Some (Finite neg c e)"
    and "half_up_cents c e = r" and "r < 10 ^ 28"
  shows "format_price p =
    Inr ((if neg then ''-'' else '''') @ digits_of (r div 100) @ ''.'' @
         [digit_char (r div 10 mod 10), digit_char (r mod 10)])"
  using format_price_finite [OF assms(1,2)] assms(3,4) by (simp add: str_cents_eq)

lemma Decimal_of_str_examples:
  "Decimal_of_str ''5.00'' = Some (Finite False 500 (- 2))"
  "Decimal_of_str ''7.5'' = Some (Finite False 75 (- 1))"
  "Decimal_of_str ''5'' = Some (Finite False 5 0)"
  "Decimal_of_str ''7'' = Some (Finite False 7 0)"
  by code_simp+

lemma format_price_examples:
  "format_price (PyStr ''5.00'') = Inr ''5.00''" "format_price (PyFloat ''7.5'') = Inr ''7.50''"
  "format_price (PyInt 5) = Inr ''5.00''" "format_price (PyInt 7) = Inr ''7.00''"
proof -
  show "format_price (PyStr ''5.00'') = Inr ''5.00''"
    using format_price_eval [OF py_str_checked_str Decimal_of_str_examples(1), of 500]
    by (simp add: half_up_cents_def digits_of_small digit_char_def char_of_digit_codes)
  show "format_price (PyFloat ''7.5'') = Inr ''7.50''"
    using format_price_eval [OF py_str_checked_float Decimal_of_str_examples(2), of 750]
    by (simp add: half_up_cents_def digits_of_small digit_char_def char_of_digit_codes)
  have i5: "py_str_checked (PyInt 5) = Inr ''5''" and i7: "py_str_checked (PyInt 7) = Inr ''7''"
    by (simp_all add: py_str_examples)
  show "format_price (PyInt 5) = Inr ''5.00''"
    using format_price_eval [OF i5 Decimal_of_str_examples(3), of 500]
    by (simp add: half_up_cents_def digits_of_small digit_char_def char_of_digit_codes)
  show "format_price (PyInt 7) = Inr ''7.00''"
    using format_price_eval [OF i7 Decimal_of_str_examples(4), of 700]
    by (simp add: half_up_cents_def digits_of_small digit_char_def char_of_digit_codes)
qed

lemma label_key_examples:
  "label_key ''1-5'' = Some 1" "label_key ''1-10'' = Some 1"
  by code_simp+

text \<open>
  C2: label completeness. Whenever \<^verbatim>\<open>build_variants\<close> returns and no colour is the empty
  string, the option tuples of the returned variants are exactly those of the bands and
  colours: every colour with every trade label and \<^verbatim>\<open>Trade\<close>, every colour with every
  end-customer label and \<^verbatim>\<open>End Customer\<close>; without colours, the same without the
  colour component.
\<close>

theorem build_variants_label_completeness:
  assumes "set_order set_iter"
    and "build_variants set_iter trade_bands endc_bands sku unit_weight colours colour_codes = Inr vs"
    and "list_all (\<lambda>c. c \<noteq> []) (or_empty colours)"
  shows "\<exists>tls els. map_result band_label (or_empty trade_bands) = Inr tls
           \<and> map_result band_label (or_empty endc_bands) = Inr els
           \<and> option_tuple ` set vs =
               (if or_empty colours \<noteq> [] then
                  {(c, l, Some ''Trade'') | c l. c \<in> set (or_empty colours) \<and> l \<in> set tls} \<union>
                  {(c, l, Some ''End Customer'') | c l. c \<in> set (or_empty colours) \<and> l \<in> set els}
                else
                  {(l, ''Trade'', None) | l. l \<in> set tls} \<union>
                  {(l, ''End Customer'', None) | l. l \<in> set els})"
proof -
  obtain labels where c: "collect_unique_band_labels set_iter trade_bands endc_bands = Inr labels"
    and b: "(if or_empty colours \<noteq> []
       then concat_result (map_result
              (\<lambda>colour. concat_result (map_result
                 (variants_for_label (or_empty trade_bands) (or_empty endc_bands)
                    (variant_sku sku colour_codes colour) unit_weight (Some colour)) labels))
              (or_empty colours))
       else concat_result (map_result
              (variants_for_label (or_empty trade_bands) (or_empty endc_bands) sku unit_weight None)
              labels)) = Inr vs"
    using assms(2) by (auto simp: build_variants_def bind_result_Inr_iff)
  obtain tls els where s: "map_result band_label (or_empty trade_bands) = Inr tls"
    "map_result band_label (or_empty endc_bands) = Inr els" "set labels = set tls \<union> set els"
    using collect_unique_band_labels_set [OF assms(1) c] by blast
  have "option_tuple ` set vs =
      (if or_empty colours \<noteq> [] then
         {(c, l, Some ''Trade'') | c l. c \<in> set (or_empty colours) \<and> l \<in> set tls} \<union>
         {(c, l, Some ''End Customer'') | c l. c \<in> set (or_empty colours) \<and> l \<in> set els}
       else
         {(l, ''Trade'', None) | l. l \<in> set tls} \<union>
         {(l, ''End Customer'', None) | l. l \<in> set els})"
  proof (cases "or_empty colours \<noteq> []")
    case True
    then obtain vss where
      m: "map_result (\<lambda>colour. concat_result (map_result
            (variants_for_label (or_empty trade_bands) (or_empty endc_bands)
               (variant_sku sku colour_codes colour) unit_weight (Some colour)) labels))
            (or_empty colours) = Inr vss" and v: "vs = concat vss"
      using b by (auto simp: concat_result_def bind_result_Inr_iff)
    have ne: "\<And>c. c \<in> set (or_empty colours) \<Longrightarrow> c \<noteq> []"
      using assms(3) by (simp add: list_all_iff)
    have "option_tuple ` set vs =
        (\<Union>c \<in> set (or_empty colours).
           (\<lambda>l. shape_tuple (Some c) l ''Trade'') ` set tls \<union>
           (\<lambda>l. shape_tuple (Some c) l ''End Customer'') ` set els)"
      using colours_loop_tuples [OF s(1,2,3) m] v by simp
    also have "\<dots> =
        {(c, l, Some ''Trade'') | c l. c \<in> set (or_empty colours) \<and> l \<in> set tls} \<union>
        {(c, l, Some ''End Customer'') | c l. c \<in> set (or_empty colours) \<and> l \<in> set els}"
      using ne by (auto simp: shape_tuple_def)
    finally show ?thesis using True by simp
  next
    case False
    then have "concat_result (map_result
        (variants_for_label (or_empty trade_bands) (or_empty endc_bands) sku unit_weight None)
        labels) = Inr vs"
      using b by simp
    from labels_loop_all_tuples [OF s(1,2) this s(3)]
    have "option_tuple ` set vs =
        (\<lambda>l. shape_tuple None l ''Trade'') ` set tls \<union>
        (\<lambda>l. shape_tuple None l ''End Customer'') ` set els" .
    also have "\<dots> = {(l, ''Trade'', None) | l. l \<in> set tls} \<union>
        {(l, ''End Customer'', None) | l. l \<in> set els}"
      by (auto simp: shape_tuple_def)
    finally show ?thesis using False by simp
  qed
  with s show ?thesis by blast
qed

lemma variants_for_label_colour_example:
  assumes "c \<noteq> []"
  shows "variants_for_label [make_band (PyInt 1) (PyInt 10) (PyStr ''5.00'')]
           [make_band (PyInt 1) (PyInt 10) (PyFloat ''7.5'')] s w (Some c) ''1-10'' =
         Inr [candidate ''5.00'' w s c ''1-10'' (Some ''Trade''),
              candidate ''7.50'' w s c ''1-10'' (Some ''End Customer'')]"
  using assms
  by (simp add: variants_for_label_def variant_if_band_def build_variant_for_band_def
      py_str_examples format_price_examples candidate_def)

lemma variants_for_label_trade_example:
  "variants_for_label [make_band (PyInt 1) (PyInt 10) (PyStr ''5.00'')] [] s w colour ''1-10'' =
     Inr [candidate ''5.00'' w s
            (case colour of None \<Rightarrow> ''1-10'' | Some c \<Rightarrow> if c \<noteq> [] then c else ''1-10'')
            (case colour of None \<Rightarrow> ''Trade'' | Some c \<Rightarrow> if c \<noteq> [] then ''1-10'' else ''Trade'')
            (case colour of None \<Rightarrow> None | Some c \<Rightarrow> if c \<noteq> [] then Some ''Trade'' else None)]"
  by (simp add: variants_for_label_def variant_if_band_def build_variant_for_band_def
      py_str_examples format_price_examples candidate_def)

lemma collect_unique_band_labels_examples:
  "collect_unique_band_labels remdups
     (Some [make_band (PyInt 1) (PyInt 10) (PyStr ''5.00'')])
     (Some [make_band (PyInt 1) (PyInt 10) (PyFloat ''7.5'')]) = Inr [''1-10'']"
  "collect_unique_band_labels remdups
     (Some [make_band (PyInt 1) (PyInt 10) (PyStr ''5.00'')]) None = Inr [''1-10'']"
  by (simp_all add: collect_unique_band_labels_def or_empty_def py_str_examples label_key_examples
      key_or_zero_def)

lemma variant_sku_examples:
  "variant_sku ''SKU'' (Some [(''Red'', ''r''), (''Blue'', '''')]) ''Red'' = ''SKU/r''"
  "variant_sku ''SKU'' (Some [(''Red'', ''r''), (''Blue'', '''')]) ''Blue'' = ''SKU''"
  "variant_sku ''SKU'' None c = ''SKU''"
  by (simp_all add: variant_sku_def or_empty_def)

theorem build_variants_label_completeness_witness:
  "build_variants remdups
      (Some [make_band (PyInt 1) (PyInt 10) (PyStr ''5.00'')])
      (Some [make_band (PyInt 1) (PyInt 10) (PyFloat ''7.5'')])
      ''SKU'' 12 (Some [''Red'', ''Blue'']) (Some [(''Red'', ''r''), (''Blue'', '''')])
    = Inr [candidate ''5.00'' 12 ''SKU/r'' ''Red'' ''1-10'' (Some ''Trade''),
           candidate ''7.50'' 12 ''SKU/r'' ''Red'' ''1-10'' (Some ''End Customer''),
           candidate ''5.00'' 12 ''SKU'' ''Blue'' ''1-10'' (Some ''Trade''),
           candidate ''7.50'' 12 ''SKU'' ''Blue'' ''1-10'' (Some ''End Customer'')]
   \<and> option_tuple `
        set [candidate ''5.00'' 12 ''SKU/r'' ''Red'' ''1-10'' (Some ''Trade''),
             candidate ''7.50'' 12 ''SKU/r'' ''Red'' ''1-10'' (Some ''End Customer''),
             candidate ''5.00'' 12 ''SKU'' ''Blue'' ''1-10'' (Some ''Trade''),
             candidate ''7.50'' 12 ''SKU'' ''Blue'' ''1-10'' (Some ''End Customer'')]
       = {(''Red'', ''1-10'', Some ''Trade''), (''Red'', ''1-10'', Some ''End Customer''),
          (''Blue'', ''1-10'', Some ''Trade''), (''Blue'', ''1-10'', Some ''End Customer'')}"
proof -
  let ?tb = "Some [make_band (PyInt 1) (PyInt 10) (PyStr ''5.00'')]"
  let ?eb = "Some [make_band (PyInt 1) (PyInt 10) (PyFloat ''7.5'')]"
  let ?cs = "Some [''Red'', ''Blue'']"
  let ?codes = "Some [(''Red'', ''r''), (''Blue'', '''')]"
  let ?vs = "[candidate ''5.00'' 12 ''SKU/r'' ''Red'' ''1-10'' (Some ''Trade''),
           candidate ''7.50'' 12 ''SKU/r'' ''Red'' ''1-10'' (Some ''End Customer''),
           candidate ''5.00'' 12 ''SKU'' ''Blue'' ''1-10'' (Some ''Trade''),
           candidate ''7.50'' 12 ''SKU'' ''Blue'' ''1-10'' (Some ''End Customer'')]"
  have o: "set_order remdups" by (simp add: set_order_def)
  have c: "list_all (\<lambda>c. c \<noteq> []) (or_empty ?cs)" by (simp add: or_empty_def)
  have l: "map_result band_label (or_empty ?tb) = Inr [''1-10'']"
    "map_result band_label (or_empty ?eb) = Inr [''1-10'']"
    by (simp_all add: or_empty_def py_str_examples)
  have e: "build_variants remdups ?tb ?eb ''SKU'' 12 ?cs ?codes = Inr ?vs"
    by (simp add: build_variants_def collect_unique_band_labels_examples or_empty_def
        concat_result_def variants_for_label_colour_example variant_sku_examples)
  from build_variants_label_completeness [OF o e c] l
  have "option_tuple ` set ?vs =
      {(c, l, Some ''Trade'') | c l. c \<in> set (or_empty ?cs) \<and> l \<in> set [''1-10'']} \<union>
      {(c, l, Some ''End Customer'') | c l. c \<in> set (or_empty ?cs) \<and> l \<in> set [''1-10'']}"
    by (simp add: or_empty_def)
  also have "\<dots> =
      {(''Red'', ''1-10'', Some ''Trade''), (''Red'', ''1-10'', Some ''End Customer''),
       (''Blue'', ''1-10'', Some ''Trade''), (''Blue'', ''1-10'', Some ''End Customer'')}"
    by (auto simp: or_empty_def)
  finally show ?thesis using e by simp
qed

text \<open>
  With an empty string among the colours (the colour list \<^verbatim>\<open>Red,\<close> of a product gives
  one) the variant of that colour takes the plain shape: the tuple with the empty colour
  is missing and a tuple without colour stands in its place.
\<close>

theorem build_variants_empty_colour_shape:
  "build_variants remdups (Some [make_band (PyInt 1) (PyInt 10) (PyStr ''5.00'')]) None
      ''SKU'' 12 (Some [''Red'', '''']) None
    = Inr [candidate ''5.00'' 12 ''SKU'' ''Red'' ''1-10'' (Some ''Trade''),
           candidate ''5.00'' 12 ''SKU'' ''1-10'' ''Trade'' None]
   \<and> option_tuple (candidate ''5.00'' 12 ''SKU'' ''1-10'' ''Trade'' None) = (''1-10'', ''Trade'', None)
   \<and> ('''', ''1-10'', Some ''Trade'') \<notin>
       option_tuple ` set [candidate ''5.00'' 12 ''SKU'' ''Red'' ''1-10'' (Some ''Trade''),
                           candidate ''5.00'' 12 ''SKU'' ''1-10'' ''Trade'' None]"
proof -
  have "build_variants remdups (Some [make_band (PyInt 1) (PyInt 10) (PyStr ''5.00'')]) None
      ''SKU'' 12 (Some [''Red'', '''']) None
    = Inr [candidate ''5.00'' 12 ''SKU'' ''Red'' ''1-10'' (Some ''Trade''),
           candidate ''5.00'' 12 ''SKU'' ''1-10'' ''Trade'' None]"
    by (simp add: build_variants_def collect_unique_band_labels_examples or_empty_def
        concat_result_def variants_for_label_trade_example variant_sku_examples)
  then show ?thesis by (simp add: option_tuple_def candidate_def)
qed

section \<open>Determinism of variant synthesis\<close>

lemma sort_key_order_independent:
  assumes "distinct xs" "distinct ys" "set xs = set ys" "inj_on f (set xs)"
  shows "sort_key f xs = sort_key f ys"
proof -
  have a: "sorted (map f (sort_key f xs))" and b: "sorted (map f (sort_key f ys))"
    by (rule sorted_sort_key)+
  have c: "distinct (map f (sort_key f xs))" and d: "distinct (map f (sort_key f ys))"
    using assms by (simp_all add: distinct_map)
  have e: "set (map f (sort_key f xs)) = set (map f (sort_key f ys))"
    using assms by simp
  have m: "map f (sort_key f xs) = map f (sort_key f ys)"
    by (rule sorted_distinct_set_unique [OF a c b d e])
  have i: "inj_on f (set (sort_key f xs) \<union> set (sort_key f ys))"
    using assms by simp
  show ?thesis
    using m by (simp add: inj_on_map_eq_map [OF i])
qed

text \<open>
  Where no two labels share their integer key, or where some label has none, the label
  list does not depend on the iteration order of the set, and neither does the list of
  variants.
\<close>

lemma collect_unique_band_labels_order_independent:
  assumes "set_order set_iter1" "set_order set_iter2"
    and "map_result band_label (or_empty trade_bands @ or_empty endc_bands) = Inr ls"
    and "inj_on key_or_zero (set ls) \<or> \<not> list_all (\<lambda>x. label_key x \<noteq> None) ls"
  shows "collect_unique_band_labels set_iter1 trade_bands endc_bands =
         collect_unique_band_labels set_iter2 trade_bands endc_bands"
proof (cases "list_all (\<lambda>x. label_key x \<noteq> None) ls")
  case True
  then have inj: "inj_on key_or_zero (set ls)" using assms(4) by blast
  have d: "distinct (set_iter1 ls)" "distinct (set_iter2 ls)"
    "set (set_iter1 ls) = set ls" "set (set_iter2 ls) = set ls"
    using assms(1,2) by (simp_all add: set_order_def)
  have "sort_key key_or_zero (set_iter1 ls) = sort_key key_or_zero (set_iter2 ls)"
    using d inj by (intro sort_key_order_independent) simp_all
  then show ?thesis
    using assms(1,2,3) True
    by (simp add: collect_unique_band_labels_def set_order_list_all)
next
  case False
  have "sort (set_iter1 ls) = sort (set_iter2 ls)"
    using assms(1,2) by (simp add: set_order_sort)
  then show ?thesis
    using assms(1,2,3) False
    by (simp add: collect_unique_band_labels_def set_order_list_all)
qed

lemma build_variants_order_independent:
  assumes "set_order set_iter1" "set_order set_iter2"
    and "map_result band_label (or_empty trade_bands @ or_empty endc_bands) = Inr ls"
    and "inj_on key_or_zero (set ls) \<or> \<not> list_all (\<lambda>x. label_key x \<noteq> None) ls"
  shows "build_variants set_iter1 trade_bands endc_bands sku unit_weight colours colour_codes =
         build_variants set_iter2 trade_bands endc_bands sku unit_weight colours colour_codes"
  using collect_unique_band_labels_order_independent [OF assms]
  by (simp add: build_variants_def)

lemma collect_unique_band_labels_tie_examples:
  "collect_unique_band_labels remdups
     (Some [make_band (PyInt 1) (PyInt 5) (PyInt 5)])
     (Some [make_band (PyInt 1) (PyInt 10) (PyInt 7)]) = Inr [''1-5'', ''1-10'']"
  "collect_unique_band_labels (\<lambda>xs. rev (remdups xs))
     (Some [make_band (PyInt 1) (PyInt 5) (PyInt 5)])
     (Some [make_band (PyInt 1) (PyInt 10) (PyInt 7)]) = Inr [''1-10'', ''1-5'']"
  by (simp_all add: collect_unique_band_labels_def or_empty_def py_str_examples label_key_examples
      key_or_zero_def)

lemma variants_for_label_tie_examples:
  "variants_for_label [make_band (PyInt 1) (PyInt 5) (PyInt 5)]
     [make_band (PyInt 1) (PyInt 10) (PyInt 7)] s w None ''1-5'' =
     Inr [candidate ''5.00'' w s ''1-5'' ''Trade'' None]"
  "variants_for_label [make_band (PyInt 1) (PyInt 5) (PyInt 5)]
     [make_band (PyInt 1) (PyInt 10) (PyInt 7)] s w None ''1-10'' =
     Inr [candidate ''7.00'' w s ''1-10'' ''End Customer'' None]"
  by (simp_all add: variants_for_label_def variant_if_band_def build_variant_for_band_def
      py_str_examples format_price_examples candidate_def)

text \<open>
  C1: determinism of \<^verbatim>\<open>build_variants\<close>. The function reads nothing but its arguments
  and the iteration order of the label set, and \<open>build_variants_order_independent\<close>
  shows that the order does not matter while the integer keys of the labels differ. It
  does matter when two labels share their key: with a trade band \<^verbatim>\<open>1-5\<close> and an
  end-customer band \<^verbatim>\<open>1-10\<close>, both keys are 1, the stable sort keeps the order in
  which the set hands out the labels, and two admissible orders give two different
  variant lists for the same arguments.
\<close>

theorem build_variants_tied_keys_follow_set_order:
  "set_order remdups \<and> set_order (\<lambda>xs. rev (remdups xs))
   \<and> build_variants remdups
        (Some [make_band (PyInt 1) (PyInt 5) (PyInt 5)])
        (Some [make_band (PyInt 1) (PyInt 10) (PyInt 7)]) ''SKU'' 12 None None
      = Inr [candidate ''5.00'' 12 ''SKU'' ''1-5'' ''Trade'' None,
             candidate ''7.00'' 12 ''SKU'' ''1-10'' ''End Customer'' None]
   \<and> build_variants (\<lambda>xs. rev (remdups xs))
        (Some [make_band (PyInt 1) (PyInt 5) (PyInt 5)])
        (Some [make_band (PyInt 1) (PyInt 10) (PyInt 7)]) ''SKU'' 12 None None
      = Inr [candidate ''7.00'' 12 ''SKU'' ''1-10'' ''End Customer'' None,
             candidate ''5.00'' 12 ''SKU'' ''1-5'' ''Trade'' None]"
proof -
  have "set_order remdups" "set_order (\<lambda>xs. rev (remdups xs))"
    by (simp_all add: set_order_def)
  moreover have "build_variants remdups
        (Some [make_band (PyInt 1) (PyInt 5) (PyInt 5)])
        (Some [make_band (PyInt 1) (PyInt 10) (PyInt 7)]) ''SKU'' 12 None None
      = Inr [candidate ''5.00'' 12 ''SKU'' ''1-5'' ''Trade'' None,
             candidate ''7.00'' 12 ''SKU'' ''1-10'' ''End Customer'' None]"
    by (simp add: build_variants_def collect_unique_band_labels_tie_examples or_empty_def
        concat_result_def variants_for_label_tie_examples)
  moreover have "build_variants (\<lambda>xs. rev (remdups xs))
        (Some [make_band (PyInt 1) (PyInt 5) (PyInt 5)])
        (Some [make_band (PyInt 1) (PyInt 10) (PyInt 7)]) ''SKU'' 12 None None
      = Inr [candidate ''7.00'' 12 ''SKU'' ''1-10'' ''End Customer'' None,
             candidate ''5.00'' 12 ''SKU'' ''1-5'' ''Trade'' None]"
    by (simp add: build_variants_def collect_unique_band_labels_tie_examples or_empty_def
        concat_result_def variants_for_label_tie_examples)
  ultimately show ?thesis by blast
qed

theorem build_variants_tied_keys_follow_set_order_witness:
  "\<exists>set_iter1 set_iter2. set_order set_iter1 \<and> set_order set_iter2
     \<and> build_variants set_iter1
          (Some [make_band (PyInt 1) (PyInt 5) (PyInt 5)])
          (Some [make_band (PyInt 1) (PyInt 10) (PyInt 7)]) ''SKU'' 12 None None
       \<noteq> build_variants set_iter2
          (Some [make_band (PyInt 1) (PyInt 5) (PyInt 5)])
          (Some [make_band (PyInt 1) (PyInt 10) (PyInt 7)]) ''SKU'' 12 None None"
proof -
  have "candidate ''5.00'' 12 ''SKU'' ''1-5'' ''Trade'' None
      \<noteq> candidate ''7.00'' 12 ''SKU'' ''1-10'' ''End Customer'' None"
    by (simp add: candidate_def)
  then show ?thesis
    using build_variants_tied_keys_follow_set_order
    by (intro exI [of _ remdups] exI [of _ "\<lambda>xs. rev (remdups xs)"]) simp
qed

section \<open>Properties of the enrichment\<close>

lemma dict_get_Inr:
  "dict_get v k = Inr x \<longleftrightarrow>
     (\<exists>vd. v = PyDict vd \<and> x = (case map_of vd k of None \<Rightarrow> PyNone | Some y \<Rightarrow> y))"
  by (cases v) (auto simp: dict_get_def)

lemma dict_get_is_str:
  "dict_get (PyDict vd) k = Inr x \<Longrightarrow> eq_str x s = option_is vd k s"
  by (auto simp: dict_get_def eq_str_def option_is_def split: option.splits)






lemma next_match_None:
  "next_match p vs = Inr None \<Longrightarrow> \<forall>u \<in> set vs. p u = Inr False"
proof (induction vs)
  case Nil
  then show ?case by simp
next
  case (Cons u us)
  from Cons.prems obtain b where b: "p u = Inr b"
    and r: "(if b then Inr (Some u) else next_match p us) = Inr None"
    by (auto simp: bind_result_Inr_iff)
  have nb: "\<not> b" using r by (cases b) simp_all
  then have "next_match p us = Inr None" using r by simp
  from Cons.IH [OF this] show ?case using b nb by simp
qed





text \<open>
  A confirmed variant of the colour shape, and what enrichment does with the band
  \<^verbatim>\<open>1-10\<close> when the shop confirmed a red and a blue variant of it.
\<close>

lemma make_band_case [simp]:
  "(case make_band mn mx p of PyDict d \<Rightarrow> f d | _ \<Rightarrow> g) =
   f [(''min'', mn), (''max'', mx), (''price'', p)]"
  by (simp add: make_band_def)





section \<open>Properties of the calls to the shop\<close>

lemma safe_request_429:
  assumes "srv tr rq = Answer resp" and "status_code resp = 429"
  shows "safe_request srv rq tr = safe_request srv rq (tr @ [Sent rq, Sleep 2000])"
  using assms by (subst safe_request.simps) (simp add: requests_request_def)

lemma safe_request_ok:
  assumes "srv tr rq = Answer resp" and "status_code resp < 400 \<or> 600 \<le> status_code resp"
  shows "safe_request srv rq tr = Some (Inr resp, tr @ [Sent rq])"
  using assms by (subst safe_request.simps) (auto simp: requests_request_def)

lemma safe_request_error:
  assumes "srv tr rq = Answer resp" and "status_code resp \<noteq> 429"
    and "400 \<le> status_code resp" and "status_code resp < 600"
  shows "safe_request srv rq tr = Some (Inl HTTPError, tr @ [Sent rq])"
  using assms by (subst safe_request.simps) (simp add: requests_request_def)

lemma safe_request_no_answer:
  assumes "srv tr rq = NoAnswer"
  shows "safe_request srv rq tr = Some (Inl ConnectionError, tr @ [Sent rq])"
  using assms by (subst safe_request.simps) (simp add: requests_request_def)

text \<open>
  \<^verbatim>\<open>safe_request\<close> sends the same request again after each answer 429, with a pause of
  two seconds, and returns the first answer that is not 429.
\<close>

lemma safe_request_retries:
  assumes "\<forall>k < n. \<exists>resp. srv (tr @ concat (replicate k [Sent rq, Sleep 2000])) rq = Answer resp
                      \<and> status_code resp = 429"
    and "srv (tr @ concat (replicate n [Sent rq, Sleep 2000])) rq = Answer resp"
    and "status_code resp < 400 \<or> 600 \<le> status_code resp"
  shows "safe_request srv rq tr =
           Some (Inr resp, tr @ concat (replicate n [Sent rq, Sleep 2000]) @ [Sent rq])"
  using assms
proof (induction n arbitrary: tr)
  case 0
  then show ?case by (simp add: safe_request_ok)
next
  case (Suc n)
  from Suc.prems(1) obtain r0 where r0: "srv tr rq = Answer r0" "status_code r0 = 429"
    by (metis append_Nil2 concat.simps(1) replicate_0 zero_less_Suc)
  have a: "\<forall>k < n. \<exists>resp. srv ((tr @ [Sent rq, Sleep 2000]) @ concat (replicate k [Sent rq, Sleep 2000])) rq
                      = Answer resp \<and> status_code resp = 429"
  proof (intro allI impI)
    fix k assume "k < n"
    then have "Suc k < Suc n" by simp
    from Suc.prems(1) [rule_format, OF this] show
      "\<exists>resp. srv ((tr @ [Sent rq, Sleep 2000]) @ concat (replicate k [Sent rq, Sleep 2000])) rq
                = Answer resp \<and> status_code resp = 429"
      by simp
  qed
  have b: "srv ((tr @ [Sent rq, Sleep 2000]) @ concat (replicate n [Sent rq, Sleep 2000])) rq = Answer resp"
    using Suc.prems(2) by simp
  have "safe_request srv rq (tr @ [Sent rq, Sleep 2000]) =
          Some (Inr resp, (tr @ [Sent rq, Sleep 2000]) @ concat (replicate n [Sent rq, Sleep 2000])
                  @ [Sent rq])"
    by (rule Suc.IH [OF a b Suc.prems(3)])
  then show ?case
    using safe_request_429 [of srv tr rq r0] r0 by simp
qed

lemma update_product_variants_trace:
  assumes "update_product_variants cfg srv product_id variants colours tr = (Inr vs, tr')"
  shows "\<exists>pid. py_str_checked product_id = Inr pid
           \<and> tr' = tr @ [Sent \<lparr> rq_method = ''PUT'', rq_url = product_url cfg pid,
                                rq_json = Some (product_payload product_id variants colours) \<rparr>]"
  using assms
  by (auto simp: update_product_variants_def requests_request_def
      split: sum.splits reply.splits if_splits)

lemma update_product_variants_not_200:
  assumes "py_str_checked product_id = Inr pid"
    and "srv tr \<lparr> rq_method = ''PUT'', rq_url = product_url cfg pid,
                  rq_json = Some (product_payload product_id variants colours) \<rparr> = Answer resp"
    and "status_code resp \<noteq> 200"
  shows "update_product_variants cfg srv product_id variants colours tr =
           (Inr (PyList []),
            tr @ [Sent \<lparr> rq_method = ''PUT'', rq_url = product_url cfg pid,
                         rq_json = Some (product_payload product_id variants colours) \<rparr>])"
  using assms by (simp add: update_product_variants_def requests_request_def)

lemma product_url_no_metafield_write:
  "\<not> metafield_write cfg (Sent \<lparr> rq_method = m, rq_url = product_url cfg pid, rq_json = j \<rparr>)"
  by (simp add: metafield_write_def product_url_def)

text \<open>
  C8: retry after the status 429. \<^verbatim>\<open>safe_request\<close> does what the claim says
  (\<open>safe_request_retries\<close>), and the metafield writers go through it. The update of the
  variants does not: \<^verbatim>\<open>update_product_variants\<close> calls \<^verbatim>\<open>requests.put\<close> itself, and
  an answer 429 is a status other than 200 like any other. It returns the empty list
  after the one request, without a pause and without a second request, where
  \<^verbatim>\<open>safe_request\<close> on the same request and the same answer pauses and sends the request
  again.
\<close>

theorem update_product_variants_does_not_retry:
  assumes "py_str_checked product_id = Inr pid"
    and "srv tr \<lparr> rq_method = ''PUT'', rq_url = product_url cfg pid,
                  rq_json = Some (product_payload product_id variants colours) \<rparr> = Answer resp"
    and "status_code resp = 429"
  shows "update_product_variants cfg srv product_id variants colours tr =
           (Inr (PyList []),
            tr @ [Sent \<lparr> rq_method = ''PUT'', rq_url = product_url cfg pid,
                         rq_json = Some (product_payload product_id variants colours) \<rparr>])
         \<and> safe_request srv
              \<lparr> rq_method = ''PUT'', rq_url = product_url cfg pid,
                rq_json = Some (product_payload product_id variants colours) \<rparr> tr =
            safe_request srv
              \<lparr> rq_method = ''PUT'', rq_url = product_url cfg pid,
                rq_json = Some (product_payload product_id variants colours) \<rparr>
              (tr @ [Sent \<lparr> rq_method = ''PUT'', rq_url = product_url cfg pid,
                           rq_json = Some (product_payload product_id variants colours) \<rparr>,
                     Sleep 2000])"
proof -
  have "update_product_variants cfg srv product_id variants colours tr =
           (Inr (PyList []),
            tr @ [Sent \<lparr> rq_method = ''PUT'', rq_url = product_url cfg pid,
                         rq_json = Some (product_payload product_id variants colours) \<rparr>])"
    using assms by (simp add: update_product_variants_def requests_request_def)
  moreover have "safe_request srv
              \<lparr> rq_method = ''PUT'', rq_url = product_url cfg pid,
                rq_json = Some (product_payload product_id variants colours) \<rparr> tr =
            safe_request srv
              \<lparr> rq_method = ''PUT'', rq_url = product_url cfg pid,
                rq_json = Some (product_payload product_id variants colours) \<rparr>
              (tr @ [Sent \<lparr> rq_method = ''PUT'', rq_url = product_url cfg pid,
                           rq_json = Some (product_payload product_id variants colours) \<rparr>,
                     Sleep 2000])"
    using assms(2,3) by (rule safe_request_429)
  ultimately show ?thesis by simp
qed

text \<open>
  A shop that answers 429 to the first request and 200 with one variant from then on:
  the update of the variants comes back empty after one request, and \<^verbatim>\<open>safe_request\<close>
  gets the variant with the second.
\<close>

theorem update_product_variants_does_not_retry_witness:
  "update_product_variants \<lparr> store_domain = ''shop.example'', api_version = ''2025-07'' \<rparr>
     (\<lambda>tr rq. if tr = [] then Answer \<lparr> status_code = 429, json_body = None \<rparr>
               else Answer \<lparr> status_code = 200,
                      json_body = Some (PyDict [(''product'',
                        PyDict [(''variants'', PyList [PyDict [(''id'', PyInt 11)]])])]) \<rparr>)
     (PyInt 7) [candidate ''5.00'' 12 ''SKU'' ''1-10'' ''Trade'' None] [] []
   = (Inr (PyList []),
      [Sent \<lparr> rq_method = ''PUT'',
              rq_url = ''https://shop.example/admin/api/2025-07/products/7.json'',
              rq_json = Some (product_payload (PyInt 7)
                               [candidate ''5.00'' 12 ''SKU'' ''1-10'' ''Trade'' None] []) \<rparr>])
   \<and> safe_request
     (\<lambda>tr rq. if tr = [] then Answer \<lparr> status_code = 429, json_body = None \<rparr>
               else Answer \<lparr> status_code = 200,
                      json_body = Some (PyDict [(''product'',
                        PyDict [(''variants'', PyList [PyDict [(''id'', PyInt 11)]])])]) \<rparr>)
     \<lparr> rq_method = ''PUT'',
       rq_url = ''https://shop.example/admin/api/2025-07/products/7.json'',
       rq_json = Some (product_payload (PyInt 7)
                        [candidate ''5.00'' 12 ''SKU'' ''1-10'' ''Trade'' None] []) \<rparr> []
   = Some (Inr \<lparr> status_code = 200,
                 json_body = Some (PyDict [(''product'',
                   PyDict [(''variants'', PyList [PyDict [(''id'', PyInt 11)]])])]) \<rparr>,
           [Sent \<lparr> rq_method = ''PUT'',
                   rq_url = ''https://shop.example/admin/api/2025-07/products/7.json'',
                   rq_json = Some (product_payload (PyInt 7)
                                    [candidate ''5.00'' 12 ''SKU'' ''1-10'' ''Trade'' None] []) \<rparr>,
            Sleep 2000,
            Sent \<lparr> rq_method = ''PUT'',
                   rq_url = ''https://shop.example/admin/api/2025-07/products/7.json'',
                   rq_json = Some (product_payload (PyInt 7)
                                    [candidate ''5.00'' 12 ''SKU'' ''1-10'' ''Trade'' None] []) \<rparr>])"
proof -
  let ?srv = "\<lambda>tr rq. if tr = [] then Answer \<lparr> status_code = 429, json_body = None \<rparr>
               else Answer \<lparr> status_code = 200,
                      json_body = Some (PyDict [(''product'',
                        PyDict [(''variants'', PyList [PyDict [(''id'', PyInt 11)]])])]) \<rparr>"
  let ?cfg = "\<lparr> store_domain = ''shop.example'', api_version = ''2025-07'' \<rparr>"
  let ?rq = "\<lparr> rq_method = ''PUT'', rq_url = product_url ?cfg ''7'',
              rq_json = Some (product_payload (PyInt 7)
                               [candidate ''5.00'' 12 ''SKU'' ''1-10'' ''Trade'' None] []) \<rparr>"
  have u: "product_url ?cfg ''7'' = ''https://shop.example/admin/api/2025-07/products/7.json''"
    by (simp add: product_url_def)
  have s: "py_str_checked (PyInt 7) = Inr ''7''"
    by (simp add: py_str_examples)
  have a: "?srv [] ?rq = Answer \<lparr> status_code = 429, json_body = None \<rparr>"
    by simp
  have b: "status_code \<lparr> status_code = 429, json_body = None \<rparr> = 429"
    by simp
  have c: "safe_request ?srv ?rq ([] @ [Sent ?rq, Sleep 2000]) =
      Some (Inr \<lparr> status_code = 200,
                 json_body = Some (PyDict [(''product'',
                   PyDict [(''variants'', PyList [PyDict [(''id'', PyInt 11)]])])]) \<rparr>,
            ([] @ [Sent ?rq, Sleep 2000]) @ [Sent ?rq])"
    by (rule safe_request_ok) simp_all
  show ?thesis
    using update_product_variants_does_not_retry [of "PyInt 7" "''7''" ?srv "[]" ?cfg
        "[candidate ''5.00'' 12 ''SKU'' ''1-10'' ''Trade'' None]" "[]"
        "\<lparr> status_code = 429, json_body = None \<rparr>"] s c
    by (simp add: u)
qed

text \<open>
  C7: no metafield is written when no variant comes back. Once the first part of
  \<^verbatim>\<open>process_product\<close> has handed on its results, a call of
  \<^verbatim>\<open>update_product_variants\<close> that returns an empty value ends the run with the result
  \<^verbatim>\<open>False\<close>; the one request sent from there on is the \<^verbatim>\<open>PUT\<close> of the variants, which
  is no metafield write. The bands are not enriched and \<^verbatim>\<open>set_or_update_metafield\<close> is
  not reached.
\<close>

theorem process_product_aborts_before_metafield_writes:
  assumes "prepare product tr = Some (Inr (Prepared p), tr1)"
    and "update_product_variants cfg srv (p_product_id p) (p_variants p) (p_colours p) tr1 =
           (Inr updated_variants, tr2)"
    and "\<not> py_truthy updated_variants"
  shows "process_product prepare attach cfg srv json_dumps product tr = Some (Inr (PyBool False), tr2)
         \<and> (\<exists>pid. py_str_checked (p_product_id p) = Inr pid
               \<and> tr2 = tr1 @ [Sent \<lparr> rq_method = ''PUT'', rq_url = product_url cfg pid,
                                     rq_json = Some (product_payload (p_product_id p) (p_variants p)
                                                       (p_colours p)) \<rparr>])
         \<and> list_all (\<lambda>e. \<not> metafield_write cfg e) (drop (length tr1) tr2)"
proof -
  have r: "process_product prepare attach cfg srv json_dumps product tr = Some (Inr (PyBool False), tr2)"
    using assms by (simp add: process_product_def finish_product_def)
  from update_product_variants_trace [OF assms(2)] obtain pid where
    t: "py_str_checked (p_product_id p) = Inr pid"
       "tr2 = tr1 @ [Sent \<lparr> rq_method = ''PUT'', rq_url = product_url cfg pid,
                            rq_json = Some (product_payload (p_product_id p) (p_variants p)
                                              (p_colours p)) \<rparr>]"
    by blast
  have "list_all (\<lambda>e. \<not> metafield_write cfg e) (drop (length tr1) tr2)"
    by (simp add: t(2) product_url_no_metafield_write)
  then show ?thesis using r t by blast
qed

text \<open>
  A run in which the shop answers the update of the variants with the status 500: the
  result is \<^verbatim>\<open>False\<close> and the trace holds the one request.
\<close>

lemma process_product_aborted_example:
  "process_product
     (\<lambda>product tr. Some (Inr (Prepared
        \<lparr> p_product_id = PyInt 7,
          p_variants = [candidate ''5.00'' 12 ''SKU'' ''1-10'' ''Trade'' None],
          p_colours = [], p_metafields = [],
          p_trade_raw = [make_band (PyInt 1) (PyInt 10) (PyInt 5)], p_endc_raw = [] \<rparr>), tr))
     (\<lambda>product_id colours colour_images tr. Some (Inr (), tr))
     \<lparr> store_domain = ''shop.example'', api_version = ''2025-07'' \<rparr>
     (\<lambda>tr rq. Answer \<lparr> status_code = 500, json_body = None \<rparr>)
     py_str
     (PyDict [(''id'', PyInt 7), (''title'', PyStr ''Mug'')]) tr
   = Some (Inr (PyBool False),
           tr @ [Sent \<lparr> rq_method = ''PUT'',
                        rq_url = ''https://shop.example/admin/api/2025-07/products/7.json'',
                        rq_json = Some (product_payload (PyInt 7)
                                         [candidate ''5.00'' 12 ''SKU'' ''1-10'' ''Trade'' None] []) \<rparr>])"
  by (simp add: process_product_def finish_product_def update_product_variants_def
      requests_request_def py_str_examples product_url_def py_truthy_def)

theorem process_product_aborts_before_metafield_writes_witness:
  "process_product
     (\<lambda>product tr. Some (Inr (Prepared
        \<lparr> p_product_id = PyInt 7,
          p_variants = [candidate ''5.00'' 12 ''SKU'' ''1-10'' ''Trade'' None],
          p_colours = [], p_metafields = [],
          p_trade_raw = [make_band (PyInt 1) (PyInt 10) (PyInt 5)], p_endc_raw = [] \<rparr>), tr))
     (\<lambda>product_id colours colour_images tr. Some (Inr (), tr))
     \<lparr> store_domain = ''shop.example'', api_version = ''2025-07'' \<rparr>
     (\<lambda>tr rq. Answer \<lparr> status_code = 500, json_body = None \<rparr>)
     py_str
     (PyDict [(''id'', PyInt 7), (''title'', PyStr ''Mug'')]) []
   = Some (Inr (PyBool False),
           [Sent \<lparr> rq_method = ''PUT'',
                   rq_url = ''https://shop.example/admin/api/2025-07/products/7.json'',
                   rq_json = Some (product_payload (PyInt 7)
                                    [candidate ''5.00'' 12 ''SKU'' ''1-10'' ''Trade'' None] []) \<rparr>])
   \<and> list_all
        (\<lambda>e. \<not> metafield_write \<lparr> store_domain = ''shop.example'', api_version = ''2025-07'' \<rparr> e)
        [Sent \<lparr> rq_method = ''PUT'',
                rq_url = ''https://shop.example/admin/api/2025-07/products/7.json'',
                rq_json = Some (product_payload (PyInt 7)
                                 [candidate ''5.00'' 12 ''SKU'' ''1-10'' ''Trade'' None] []) \<rparr>]"
proof -
  let ?cfg = "\<lparr> store_domain = ''shop.example'', api_version = ''2025-07'' \<rparr>"
  let ?srv = "\<lambda>(tr :: trace) (rq :: request). Answer \<lparr> status_code = 500, json_body = None \<rparr>"
  let ?p = "\<lparr> p_product_id = PyInt 7,
          p_variants = [candidate ''5.00'' 12 ''SKU'' ''1-10'' ''Trade'' None],
          p_colours = [], p_metafields = [],
          p_trade_raw = [make_band (PyInt 1) (PyInt 10) (PyInt 5)], p_endc_raw = [] \<rparr>"
  let ?put = "\<lparr> rq_method = ''PUT'',
                rq_url = ''https://shop.example/admin/api/2025-07/products/7.json'',
                rq_json = Some (product_payload (PyInt 7)
                                 [candidate ''5.00'' 12 ''SKU'' ''1-10'' ''Trade'' None] []) \<rparr>"
  have u: "update_product_variants ?cfg ?srv (p_product_id ?p) (p_variants ?p) (p_colours ?p) [] =
             (Inr (PyList []), [Sent ?put])"
    by (simp add: update_product_variants_def requests_request_def py_str_examples product_url_def)
  have f: "\<not> py_truthy (PyList [])"
    by (simp add: py_truthy_def)
  have a: "(\<lambda>product tr. Some (Inr (Prepared ?p), tr))
             (PyDict [(''id'', PyInt 7), (''title'', PyStr ''Mug'')]) [] = Some (Inr (Prepared ?p), [])"
    by simp
  show ?thesis
    using process_product_aborts_before_metafield_writes
      [of "\<lambda>product tr. Some (Inr (Prepared ?p), tr)"
          "PyDict [(''id'', PyInt 7), (''title'', PyStr ''Mug'')]" "[]" ?p "[]" ?cfg ?srv
          "PyList []" "[Sent ?put]" "\<lambda>product_id colours colour_images tr. Some (Inr (), tr)" py_str,
       OF a u f]
    by (simp add: py_str_examples product_url_def metafield_write_def)
qed

lemma main_loop_returns:
  assumes "\<forall>product \<in> set products. \<forall>tr. \<exists>v tr'. process product tr = Some (Inr v, tr')"
    and "\<forall>product \<in> set products. \<exists>t.
           bind_result (dict_get_default product ''title'' (PyStr ''Unknown'')) py_str_checked = Inr t"
  shows "\<exists>tr'. main_loop process products successful failed tr =
                 Some (Inr (successful + length products, failed), tr')"
  using assms
proof (induction products arbitrary: successful tr)
  case Nil
  then show ?case by simp
next
  case (Cons product products)
  from Cons.prems(2) obtain t where
    t: "bind_result (dict_get_default product ''title'' (PyStr ''Unknown'')) py_str_checked = Inr t"
    by auto
  from Cons.prems(1) obtain v tr1 where p: "process product tr = Some (Inr v, tr1)"
    by (metis list.set_intros(1))
  have a: "\<forall>product \<in> set products. \<forall>tr. \<exists>v tr'. process product tr = Some (Inr v, tr')"
    using Cons.prems(1) by simp
  have b: "\<forall>product \<in> set products. \<exists>t.
           bind_result (dict_get_default product ''title'' (PyStr ''Unknown'')) py_str_checked = Inr t"
    using Cons.prems(2) by simp
  from Cons.IH [OF a b, of "successful + 1" "if products \<noteq> [] then tr1 @ [Sleep 700] else tr1"]
  obtain tr' where
    "main_loop process products (successful + 1) failed
       (if products \<noteq> [] then tr1 @ [Sleep 700] else tr1) =
     Some (Inr (successful + 1 + length products, failed), tr')"
    by blast
  then have "main_loop process (product # products) successful failed tr =
      Some (Inr (successful + length (product # products), failed), tr')"
    using t p by simp
  then show ?case by blast
qed

text \<open>
  C9: the counters of the batch. The loop of \<^verbatim>\<open>main\<close> goes through every product:
  a product whose run raises is counted as failed and the loop goes on. But the result
  of \<^verbatim>\<open>process_product\<close> is not looked at, and that function catches its exceptions
  and returns \<^verbatim>\<open>False\<close>: every run that returns is counted as successful, also the
  runs that were aborted. Where every run returns, the count of the successful products
  grows by the number of products and the count of the failed ones stays.
\<close>

theorem main_loop_counts_every_returned_run_as_successful:
  assumes "\<forall>product \<in> set products. \<forall>tr. \<exists>v tr'. process product tr = Some (Inr v, tr')"
    and "\<forall>product \<in> set products. \<exists>t.
           bind_result (dict_get_default product ''title'' (PyStr ''Unknown'')) py_str_checked = Inr t"
  shows "\<exists>tr'. main_loop process products successful failed tr =
                 Some (Inr (successful + length products, failed), tr')"
  using assms by (rule main_loop_returns)

text \<open>
  A batch of one product whose update of the variants gets the status 500: the run
  returns \<^verbatim>\<open>False\<close>, and the report says one successful product and no failed one.
\<close>

theorem main_loop_counts_every_returned_run_as_successful_witness:
  "(\<exists>tr'. main_loop
      (process_product
         (\<lambda>product tr. Some (Inr (Prepared
            \<lparr> p_product_id = PyInt 7,
              p_variants = [candidate ''5.00'' 12 ''SKU'' ''1-10'' ''Trade'' None],
              p_colours = [], p_metafields = [],
              p_trade_raw = [make_band (PyInt 1) (PyInt 10) (PyInt 5)], p_endc_raw = [] \<rparr>), tr))
         (\<lambda>product_id colours colour_images tr. Some (Inr (), tr))
         \<lparr> store_domain = ''shop.example'', api_version = ''2025-07'' \<rparr>
         (\<lambda>tr rq. Answer \<lparr> status_code = 500, json_body = None \<rparr>)
         py_str)
      [PyDict [(''id'', PyInt 7), (''title'', PyStr ''Mug'')]] 0 0 [] = Some (Inr (1, 0), tr'))
   \<and> process_product
         (\<lambda>product tr. Some (Inr (Prepared
            \<lparr> p_product_id = PyInt 7,
              p_variants = [candidate ''5.00'' 12 ''SKU'' ''1-10'' ''Trade'' None],
              p_colours = [], p_metafields = [],
              p_trade_raw = [make_band (PyInt 1) (PyInt 10) (PyInt 5)], p_endc_raw = [] \<rparr>), tr))
         (\<lambda>product_id colours colour_images tr. Some (Inr (), tr))
         \<lparr> store_domain = ''shop.example'', api_version = ''2025-07'' \<rparr>
         (\<lambda>tr rq. Answer \<lparr> status_code = 500, json_body = None \<rparr>)
         py_str
         (PyDict [(''id'', PyInt 7), (''title'', PyStr ''Mug'')]) []
      = Some (Inr (PyBool False),
           [Sent \<lparr> rq_method = ''PUT'',
                   rq_url = ''https://shop.example/admin/api/2025-07/products/7.json'',
                   rq_json = Some (product_payload (PyInt 7)
                                    [candidate ''5.00'' 12 ''SKU'' ''1-10'' ''Trade'' None] []) \<rparr>])"
proof -
  let ?process = "process_product
         (\<lambda>product tr. Some (Inr (Prepared
            \<lparr> p_product_id = PyInt 7,
              p_variants = [candidate ''5.00'' 12 ''SKU'' ''1-10'' ''Trade'' None],
              p_colours = [], p_metafields = [],
              p_trade_raw = [make_band (PyInt 1) (PyInt 10) (PyInt 5)], p_endc_raw = [] \<rparr>), tr))
         (\<lambda>product_id colours colour_images tr. Some (Inr (), tr))
         \<lparr> store_domain = ''shop.example'', api_version = ''2025-07'' \<rparr>
         (\<lambda>tr rq. Answer \<lparr> status_code = 500, json_body = None \<rparr>)
         py_str"
  have a: "\<forall>product \<in> set [PyDict [(''id'', PyInt 7), (''title'', PyStr ''Mug'')]].
             \<forall>tr. \<exists>v tr'. ?process product tr = Some (Inr v, tr')"
    by (simp add: process_product_aborted_example)
  have b: "\<forall>product \<in> set [PyDict [(''id'', PyInt 7), (''title'', PyStr ''Mug'')]]. \<exists>t.
           bind_result (dict_get_default product ''title'' (PyStr ''Unknown'')) py_str_checked = Inr t"
    by (simp add: dict_get_default_def)
  from main_loop_counts_every_returned_run_as_successful [OF a b, of 0 0 "[]"]
  show ?thesis
    by (simp add: process_product_aborted_example)
qed

text \<open>
  A run in which the shop accepts everything: the variant comes back with its id, the
  band gets that id, both metafields are created and the run returns \<^verbatim>\<open>True\<close>. Two
  requests of the trace write a metafield.
\<close>

lemma safe_request_stateless:
  "status_code (f rq) < 400 \<Longrightarrow>
   safe_request (\<lambda>tr rq. Answer (f rq)) rq tr = Some (Inr (f rq), tr @ [Sent rq])"
  by (rule safe_request_ok) simp_all

lemma process_product_success_example:
  "\<exists>tr'. process_product
     (\<lambda>product tr. Some (Inr (Prepared
        \<lparr> p_product_id = PyInt 7,
          p_variants = [candidate ''5.00'' 12 ''SKU'' ''1-10'' ''Trade'' None],
          p_colours = [], p_metafields = [],
          p_trade_raw = [make_band (PyInt 1) (PyInt 10) (PyInt 5)], p_endc_raw = [] \<rparr>), tr))
     (\<lambda>product_id colours colour_images tr. Some (Inr (), tr))
     \<lparr> store_domain = ''shop.example'', api_version = ''2025-07'' \<rparr>
     (\<lambda>tr rq. Answer
        (if rq_method rq = ''PUT''
         then \<lparr> status_code = 200,
                json_body = Some (PyDict [(''product'', PyDict [(''variants'',
                  PyList [PyDict [(''id'', PyInt 11), (''option1'', PyStr ''1-10''),
                                  (''option2'', PyStr ''Trade'')]])])]) \<rparr>
         else \<lparr> status_code = 201,
                json_body = Some (PyDict [(''metafield'', PyDict [(''id'', PyInt 5)])]) \<rparr>))
     py_str
     (PyDict [(''id'', PyInt 7), (''title'', PyStr ''Mug'')]) []
   = Some (Inr (PyBool True), tr')
   \<and> length (filter (metafield_write \<lparr> store_domain = ''shop.example'', api_version = ''2025-07'' \<rparr>) tr')
       = 2"
  by (simp add: process_product_def finish_product_def update_product_variants_def
      requests_request_def py_str_examples product_url_def py_truthy_def created_variants_def
      response_json_def dict_get_default_def dict_get_def has_len_def py_iter_def
      process_product_enrich_def enrich_bands_with_variant_ids_def or_empty_def enrich_band_def
      find_variant_def match_plain_def match_any_colour_def eq_str_def match_truthy_def
      enriched_band_def format_price_examples write_metafields_def set_or_update_metafield_def
      create_metafield_def safe_request_stateless attach_images_def metafield_write_def
      py_str_checked_def
      metafields_url_def)

end
